theory Spec2Isabelle
  imports Complex_Main
begin

section \<open>Values handled by the scripts\<close>

text \<open>
  The scripts of \<^verbatim>\<open>src/scripts\<close> exchange JSON documents with three managed services
  and print text. Every value they touch is a parsed JSON document: a dictionary is kept
  as an association list in insertion order (its keys pairwise distinct, as in a Python
  \<^verbatim>\<open>dict\<close>), a string as the list of its code points (code points below 256, one
  \<^typ>\<open>char\<close> each, so that \<^verbatim>\<open>len\<close> and slicing count what Python counts).
\<close>

datatype json =
    JNull
  | JBool bool
  | JInt int
  | JFloat rat
  | JStr string
  | JList "json list"
  | JDict "(string \<times> json) list"

text \<open>
  An exception carries the name of its class, the text \<^verbatim>\<open>str(e)\<close> and, for the
  service errors of the client library, the \<^verbatim>\<open>response\<close> attribute that
  \<^verbatim>\<open>hasattr(e, 'response')\<close> probes. Only instances of \<^verbatim>\<open>Exception\<close> are modelled:
  the interpreter's own lookup errors and the failures of the service calls.
\<close>

datatype exn = Exn (ename: string) (emsg: string) (eresponse: "json option")

definition NL :: string where
  "NL = [CHR 0x0A]"

definition SQ :: string where
  "SQ = [CHR 0x27]"

definition DQ :: string where
  "DQ = [CHR 0x22]"

fun type_name :: "json \<Rightarrow> string" where
  "type_name JNull = ''NoneType''"
| "type_name (JBool b) = ''bool''"
| "type_name (JInt i) = ''int''"
| "type_name (JFloat r) = ''float''"
| "type_name (JStr s) = ''str''"
| "type_name (JList xs) = ''list''"
| "type_name (JDict kvs) = ''dict''"

definition KeyError :: "string \<Rightarrow> exn" where
  "KeyError k = Exn ''KeyError'' k None"

definition IndexError :: "string \<Rightarrow> exn" where
  "IndexError m = Exn ''IndexError'' m None"

definition TypeError :: "string \<Rightarrow> exn" where
  "TypeError m = Exn ''TypeError'' m None"

definition AttributeError :: "json \<Rightarrow> string \<Rightarrow> exn" where
  "AttributeError v a =
     Exn ''AttributeError''
       (SQ @ type_name v @ SQ @ '' object has no attribute '' @ SQ @ a @ SQ) None"

definition not_subscriptable :: "json \<Rightarrow> exn" where
  "not_subscriptable v = TypeError (SQ @ type_name v @ SQ @ '' object is not subscriptable'')"

subsection \<open>The interpreter's operations on values\<close>

text \<open>\<^verbatim>\<open>obj.get(key, default)\<close>: defined on dictionaries only.\<close>

fun py_get :: "json \<Rightarrow> string \<Rightarrow> json \<Rightarrow> exn + json" where
  "py_get (JDict kvs) k d = Inr (case map_of kvs k of Some v \<Rightarrow> v | None \<Rightarrow> d)"
| "py_get v k d = Inl (AttributeError v ''get'')"

text \<open>\<^verbatim>\<open>obj[key]\<close> for a string key; \<^verbatim>\<open>str(KeyError(k))\<close> is the quoted key.\<close>

fun py_item :: "json \<Rightarrow> string \<Rightarrow> exn + json" where
  "py_item (JDict kvs) k =
     (case map_of kvs k of Some v \<Rightarrow> Inr v | None \<Rightarrow> Inl (KeyError (SQ @ k @ SQ)))"
| "py_item (JStr s) k = Inl (TypeError (''string indices must be integers, not '' @ SQ @ ''str'' @ SQ))"
| "py_item (JList xs) k = Inl (TypeError ''list indices must be integers or slices, not str'')"
| "py_item v k = Inl (not_subscriptable v)"

text \<open>\<^verbatim>\<open>obj[0]\<close>: the keys of a parsed JSON object are strings, so 0 is never one.\<close>

fun py_item0 :: "json \<Rightarrow> exn + json" where
  "py_item0 (JList []) = Inl (IndexError ''list index out of range'')"
| "py_item0 (JList (x # xs)) = Inr x"
| "py_item0 (JStr []) = Inl (IndexError ''string index out of range'')"
| "py_item0 (JStr (c # cs)) = Inr (JStr [c])"
| "py_item0 (JDict kvs) = Inl (KeyError ''0'')"
| "py_item0 v = Inl (not_subscriptable v)"

text \<open>\<^verbatim>\<open>obj[:200]\<close>.\<close>

fun py_slice200 :: "json \<Rightarrow> exn + json" where
  "py_slice200 (JStr s) = Inr (JStr (take 200 s))"
| "py_slice200 (JList xs) = Inr (JList (take 200 xs))"
| "py_slice200 (JDict kvs) = Inl (TypeError (''unhashable type: '' @ SQ @ ''slice'' @ SQ))"
| "py_slice200 v = Inl (not_subscriptable v)"

text \<open>\<^verbatim>\<open>len(obj)\<close>.\<close>

fun py_len :: "json \<Rightarrow> exn + nat" where
  "py_len (JStr s) = Inr (length s)"
| "py_len (JList xs) = Inr (length xs)"
| "py_len (JDict kvs) = Inr (length kvs)"
| "py_len v = Inl (TypeError (''object of type '' @ SQ @ type_name v @ SQ @ '' has no len()''))"

text \<open>\<^verbatim>\<open>obj + '...'\<close>.\<close>

fun py_add_str :: "json \<Rightarrow> string \<Rightarrow> exn + json" where
  "py_add_str (JStr s) t = Inr (JStr (s @ t))"
| "py_add_str (JList xs) t = Inl (TypeError (''can only concatenate list (not '' @ DQ @ ''str'' @ DQ @ '') to list''))"
| "py_add_str v t =
     Inl (TypeError (''unsupported operand type(s) for +: '' @ SQ @ type_name v @ SQ
       @ '' and '' @ SQ @ ''str'' @ SQ))"

text \<open>Iteration, as \<^verbatim>\<open>for x in obj\<close> and \<^verbatim>\<open>enumerate(obj)\<close> perform it.\<close>

fun py_iter :: "json \<Rightarrow> exn + json list" where
  "py_iter (JList xs) = Inr xs"
| "py_iter (JStr s) = Inr (map (\<lambda>c. JStr [c]) s)"
| "py_iter (JDict kvs) = Inr (map (\<lambda>kv. JStr (fst kv)) kvs)"
| "py_iter v = Inl (TypeError (SQ @ type_name v @ SQ @ '' object is not iterable''))"

text \<open>Truth value, as \<^verbatim>\<open>if obj:\<close> and \<^verbatim>\<open>if not obj:\<close> test it.\<close>

fun py_truthy :: "json \<Rightarrow> bool" where
  "py_truthy JNull = False"
| "py_truthy (JBool b) = b"
| "py_truthy (JInt i) = (i \<noteq> 0)"
| "py_truthy (JFloat r) = (r \<noteq> 0)"
| "py_truthy (JStr s) = (s \<noteq> [])"
| "py_truthy (JList xs) = (xs \<noteq> [])"
| "py_truthy (JDict kvs) = (kvs \<noteq> [])"

subsection \<open>Strings\<close>

text \<open>\<^verbatim>\<open>str.lower\<close> on code points below 256.\<close>

definition lower_char :: "char \<Rightarrow> char" where
  "lower_char c =
     (let n = (of_char c :: nat)
      in if (65 \<le> n \<and> n \<le> 90) \<or> (192 \<le> n \<and> n \<le> 222 \<and> n \<noteq> 215)
         then char_of (n + 32) else c)"

definition lower :: "string \<Rightarrow> string" where
  "lower s = map lower_char s"

text \<open>\<^verbatim>\<open>sub in s\<close> for strings.\<close>

fun contains :: "string \<Rightarrow> string \<Rightarrow> bool" where
  "contains sub [] = (sub = [])"
| "contains sub (c # cs) = (take (length sub) (c # cs) = sub \<or> contains sub cs)"

text \<open>\<^verbatim>\<open>str.strip()\<close>: the white space among the code points below 256.\<close>

definition is_space :: "char \<Rightarrow> bool" where
  "is_space c =
     (let n = (of_char c :: nat)
      in (9 \<le> n \<and> n \<le> 13) \<or> (28 \<le> n \<and> n \<le> 32) \<or> n = 133 \<or> n = 160)"

definition strip :: "string \<Rightarrow> string" where
  "strip s = rev (dropWhile is_space (rev (dropWhile is_space s)))"

text \<open>\<^verbatim>\<open>str(n)\<close> for a natural number: the index that \<^verbatim>\<open>enumerate\<close> supplies.\<close>

fun str_nat :: "nat \<Rightarrow> string" where
  "str_nat n =
     (if n < 10 then [''0123456789'' ! n]
      else str_nat (n div 10) @ [''0123456789'' ! (n mod 10)])"

declare str_nat.simps [simp del]

text \<open>\<^verbatim>\<open>sep.join(parts)\<close>.\<close>

fun join :: "string \<Rightarrow> string list \<Rightarrow> string" where
  "join sep [] = []"
| "join sep [x] = x"
| "join sep (x # y # ys) = x @ sep @ join sep (y # ys)"

subsection \<open>What the interpreter and its library provide\<close>

text \<open>
  Three renderings are the interpreter's and the standard library's, not the
  repository's: \<^verbatim>\<open>str(v)\<close> of a value that is not a string, \<^verbatim>\<open>format(v, '.2f')\<close>
  (which raises on a value that is not a number) and
  \<^verbatim>\<open>json.dumps(v, indent=2, default=str)\<close>. They are parameters of the model.
\<close>

record pylib =
  str_of :: "json \<Rightarrow> string"
  format_2f :: "json \<Rightarrow> exn + string"
  dumps_indent :: "json \<Rightarrow> string"

text \<open>\<^verbatim>\<open>str(v)\<close>, and \<^verbatim>\<open>{v}\<close> inside an f-string: a string is rendered as itself.\<close>

definition py_str :: "pylib \<Rightarrow> json \<Rightarrow> string" where
  "py_str lib v = (case v of JStr s \<Rightarrow> s | _ \<Rightarrow> str_of lib v)"

text \<open>\<^verbatim>\<open>obj.strip()\<close>: a method of strings only.\<close>

definition py_strip :: "json \<Rightarrow> exn + string" where
  "py_strip v = (case v of JStr s \<Rightarrow> Inr (strip s) | _ \<Rightarrow> Inl (AttributeError v ''strip''))"

section \<open>Computations: exceptions, printed lines and service calls\<close>

text \<open>
  A pure step either raises or returns (\<open>exn + 'a\<close>). A step with effects also yields
  the trace of what it printed and which service operations it called, in order.
\<close>

definition bindE :: "exn + 'a \<Rightarrow> ('a \<Rightarrow> exn + 'b) \<Rightarrow> exn + 'b" where
  "bindE m f = (case m of Inl e \<Rightarrow> Inl e | Inr x \<Rightarrow> f x)"

datatype event =
    Print string
  | Prompt string
  | Call string "json list"

type_synonym 'a comp = "(exn + 'a) \<times> event list"

definition ret :: "'a \<Rightarrow> 'a comp" where
  "ret x = (Inr x, [])"

definition raise :: "exn \<Rightarrow> 'a comp" where
  "raise e = (Inl e, [])"

definition pure_step :: "exn + 'a \<Rightarrow> 'a comp" where
  "pure_step r = (r, [])"

definition print :: "string \<Rightarrow> unit comp" where
  "print s = (Inr (), [Print s])"

definition call :: "string \<Rightarrow> json list \<Rightarrow> exn + 'a \<Rightarrow> 'a comp" where
  "call name args r = (r, [Call name args])"

definition and_then :: "'a comp \<Rightarrow> ('a \<Rightarrow> 'b comp) \<Rightarrow> 'b comp" where
  "and_then m f =
     (case m of
        (Inl e, t) \<Rightarrow> (Inl e, t)
      | (Inr x, t) \<Rightarrow> (case f x of (r, t') \<Rightarrow> (r, t @ t')))"

text \<open>\<^verbatim>\<open>try: m except Exception as e: h e\<close>.\<close>

definition try_except :: "'a comp \<Rightarrow> (exn \<Rightarrow> 'a comp) \<Rightarrow> 'a comp" where
  "try_except m h =
     (case m of
        (Inl e, t) \<Rightarrow> (case h e of (r, t') \<Rightarrow> (r, t @ t'))
      | (Inr x, t) \<Rightarrow> (Inr x, t))"

text \<open>A \<^verbatim>\<open>for\<close> loop whose body has effects: it stops at the first exception.\<close>

fun for_each :: "('a \<Rightarrow> unit comp) \<Rightarrow> 'a list \<Rightarrow> unit comp" where
  "for_each body [] = ret ()"
| "for_each body (x # xs) = and_then (body x) (\<lambda>_. for_each body xs)"

section \<open>The managed services\<close>

text \<open>
  The answer of each operation of the client library, as a function of the arguments
  the scripts pass. \<open>agent_client\<close> and \<open>runtime_client\<close> are the two
  \<^verbatim>\<open>boto3.client(...)\<close> constructions that stand inside a \<^verbatim>\<open>try\<close>: \<open>None\<close> when the
  client is built, the exception otherwise. \<open>invoke_model\<close> answers with the parsed
  body, that is \<^verbatim>\<open>json.loads(response['body'].read())\<close>; a failure of the call, of the
  read or of the parse is its exception (all three stand in the same \<^verbatim>\<open>try\<close>).
\<close>

record world =
  agent_client :: "exn option"
  list_knowledge_bases :: "exn + json"
  get_knowledge_base :: "string \<Rightarrow> exn + json"
  list_data_sources :: "string \<Rightarrow> exn + json"
  get_data_source :: "string \<Rightarrow> json \<Rightarrow> exn + json"
  list_ingestion_jobs :: "string \<Rightarrow> json \<Rightarrow> exn + json"
  retrieve_and_generate :: "string \<Rightarrow> string \<Rightarrow> int \<Rightarrow> exn + json"
  retrieve :: "string \<Rightarrow> string \<Rightarrow> int \<Rightarrow> exn + json"
  runtime_client :: "exn option"
  invoke_model :: "string \<Rightarrow> json \<Rightarrow> exn + json"

definition client_result :: "exn option \<Rightarrow> exn + unit" where
  "client_result c = (case c of Some e \<Rightarrow> Inl e | None \<Rightarrow> Inr ())"

section \<open>\<^verbatim>\<open>query_knowledge_base.py\<close>: formatting references\<close>

text \<open>The body of the loop of \<^verbatim>\<open>format_references\<close>: the entry of index \<open>i\<close>.\<close>

definition reference :: "pylib \<Rightarrow> nat \<Rightarrow> json \<Rightarrow> exn + string" where
  "reference lib i result =
     bindE (py_get result ''metadata'' (JDict [])) (\<lambda>metadata.
     bindE (py_get result ''content'' (JDict [])) (\<lambda>c.
     bindE (py_get c ''text'' (JStr ''No content'')) (\<lambda>content.
     bindE (py_get metadata ''source'' (JStr ''Unknown'')) (\<lambda>source.
     bindE (py_get metadata ''page_number'' (JStr ''N/A'')) (\<lambda>page.
     bindE (py_slice200 content) (\<lambda>shown.
       Inr (NL @ ''--- Reference '' @ str_nat i @ '' ---'' @ NL
            @ ''Source: '' @ py_str lib source @ NL
            @ ''Page: '' @ py_str lib page @ NL
            @ ''Content: '' @ py_str lib shown @ ''...'')))))))"

fun references :: "pylib \<Rightarrow> nat \<Rightarrow> json list \<Rightarrow> exn + string list" where
  "references lib i [] = Inr []"
| "references lib i (r # rs) =
     (case reference lib i r of
        Inl e \<Rightarrow> Inl e
      | Inr x \<Rightarrow> (case references lib (Suc i) rs of Inl e \<Rightarrow> Inl e | Inr xs \<Rightarrow> Inr (x # xs)))"

definition format_references :: "pylib \<Rightarrow> json \<Rightarrow> exn + string" where
  "format_references lib retrieval_results =
     (if \<not> py_truthy retrieval_results then Inr ''No references found.''
      else bindE (py_iter retrieval_results) (\<lambda>rs.
           bindE (references lib 1 rs) (\<lambda>refs. Inr (join NL refs))))"

section \<open>\<^verbatim>\<open>query_kb_retrieve.py\<close>: formatting results\<close>

text \<open>
  The three lines that the loop of \<^verbatim>\<open>format_results\<close> appends for the result of
  index \<open>i\<close>. The conditional expression tests \<^verbatim>\<open>len(content) > 200\<close> first.
\<close>

definition preview :: "json \<Rightarrow> exn + json" where
  "preview content =
     bindE (py_len content) (\<lambda>n.
       if n > 200 then bindE (py_slice200 content) (\<lambda>cut. py_add_str cut ''...'')
       else Inr content)"

definition result_lines :: "pylib \<Rightarrow> nat \<Rightarrow> json \<Rightarrow> exn + string list" where
  "result_lines lib i result =
     bindE (py_get result ''content'' (JDict [])) (\<lambda>c.
     bindE (py_get c ''text'' (JStr '''')) (\<lambda>content.
     bindE (py_get result ''location'' (JDict [])) (\<lambda>location.
     bindE (py_get location ''s3Location'' (JDict [])) (\<lambda>s3.
     bindE (py_get s3 ''uri'' (JStr ''Unknown source'')) (\<lambda>source.
     bindE (py_get result ''score'' (JInt 0)) (\<lambda>score.
     bindE (preview content) (\<lambda>shown.
     bindE (format_2f lib score) (\<lambda>score_text.
       Inr [NL @ ''Result '' @ str_nat i @ '' (Relevance: '' @ score_text @ ''):'',
            ''Source: '' @ py_str lib source,
            ''Content: '' @ py_str lib shown]))))))))"

fun results_lines :: "pylib \<Rightarrow> nat \<Rightarrow> json list \<Rightarrow> exn + string list" where
  "results_lines lib i [] = Inr []"
| "results_lines lib i (r # rs) =
     (case result_lines lib i r of
        Inl e \<Rightarrow> Inl e
      | Inr ls \<Rightarrow> (case results_lines lib (Suc i) rs of Inl e \<Rightarrow> Inl e | Inr rest \<Rightarrow> Inr (ls @ rest)))"

definition format_results :: "pylib \<Rightarrow> json \<Rightarrow> exn + string" where
  "format_results lib results =
     (if \<not> py_truthy results then Inr ''No results found.''
      else bindE (py_iter results) (\<lambda>rs.
           bindE (results_lines lib 1 rs) (\<lambda>ls. Inr (join NL (''=== Search Results ==='' # ls)))))"

section \<open>\<^verbatim>\<open>query_knowledge_base.py\<close>: generating a response\<close>

text \<open>The block of the passage at position \<open>i\<close> (counted from 0) of the list.\<close>

definition source_block :: "pylib \<Rightarrow> nat \<Rightarrow> json \<Rightarrow> exn + string" where
  "source_block lib i result =
     bindE (py_item result ''content'') (\<lambda>c.
     bindE (py_item c ''text'') (\<lambda>t.
       Inr (''Source '' @ str_nat (i + 1) @ '':'' @ NL @ py_str lib t)))"

fun source_blocks :: "pylib \<Rightarrow> nat \<Rightarrow> json list \<Rightarrow> exn + string list" where
  "source_blocks lib i [] = Inr []"
| "source_blocks lib i (r # rs) =
     (case source_block lib i r of
        Inl e \<Rightarrow> Inl e
      | Inr x \<Rightarrow> (case source_blocks lib (Suc i) rs of Inl e \<Rightarrow> Inl e | Inr xs \<Rightarrow> Inr (x # xs)))"

definition prompt_context :: "pylib \<Rightarrow> json \<Rightarrow> exn + string" where
  "prompt_context lib knowledge_base_results =
     bindE (py_iter knowledge_base_results) (\<lambda>rs.
     bindE (source_blocks lib 0 rs) (\<lambda>blocks. Inr (join (NL @ NL) blocks)))"

definition full_prompt :: "string \<Rightarrow> string \<Rightarrow> string" where
  "full_prompt ctx prompt =
     ''Use the following pieces of context to answer the question at the end. '' @ NL
     @ ''If you don't know the answer, just say that you don't know, don't try to make up an answer.''
     @ NL @ NL @ ctx @ NL @ NL @ ''Question: '' @ prompt @ NL @ ''Helpful Answer:''"

definition is_claude :: "string \<Rightarrow> bool" where
  "is_claude model_id = contains ''claude'' (lower model_id)"

definition is_titan :: "string \<Rightarrow> bool" where
  "is_titan model_id = contains ''titan'' (lower model_id)"

text \<open>The dictionary handed to \<^verbatim>\<open>json.dumps\<close>, which cannot raise on it.\<close>

definition request_body :: "string \<Rightarrow> string \<Rightarrow> json" where
  "request_body model_id fp =
     (if is_claude model_id then
        JDict [(''prompt'', JStr (NL @ NL @ ''Human: '' @ fp @ NL @ NL @ ''Assistant:'')),
               (''max_tokens_to_sample'', JInt 1000),
               (''temperature'', JFloat (1 / 2)),
               (''top_p'', JFloat (9 / 10))]
      else
        JDict [(''prompt'', JStr fp),
               (''max_tokens'', JInt 1000),
               (''temperature'', JFloat (1 / 2)),
               (''top_p'', JFloat (9 / 10))])"

definition no_response :: json where
  "no_response = JStr ''No response generated''"

definition extract_text :: "pylib \<Rightarrow> string \<Rightarrow> json \<Rightarrow> exn + json" where
  "extract_text lib model_id response_body =
     (if is_claude model_id then py_get response_body ''completion'' no_response
      else if is_titan model_id then
        bindE (py_get response_body ''results'' (JList [JDict []])) (\<lambda>results.
        bindE (py_item0 results) (\<lambda>first. py_get first ''outputText'' no_response))
      else Inr (JStr (py_str lib response_body)))"

definition generate_response :: "world \<Rightarrow> pylib \<Rightarrow> string \<Rightarrow> string \<Rightarrow> json \<Rightarrow> json comp" where
  "generate_response w lib model_id prompt knowledge_base_results =
     and_then (pure_step (prompt_context lib knowledge_base_results)) (\<lambda>ctx.
       try_except
         (and_then (call ''boto3.client'' [JStr ''bedrock-runtime''] (client_result (runtime_client w))) (\<lambda>_.
          and_then (call ''invoke_model'' [JStr model_id, request_body model_id (full_prompt ctx prompt)]
                      (invoke_model w model_id (request_body model_id (full_prompt ctx prompt)))) (\<lambda>response_body.
          pure_step (extract_text lib model_id response_body))))
         (\<lambda>e. and_then (print (''Error generating response: '' @ emsg e)) (\<lambda>_. raise e)))"

section \<open>\<^verbatim>\<open>query_kb_retrieve.py\<close>: querying with the retrieve operation\<close>

definition retrieve_query_knowledge_base ::
  "world \<Rightarrow> pylib \<Rightarrow> string \<Rightarrow> string \<Rightarrow> int \<Rightarrow> json comp" where
  "retrieve_query_knowledge_base w lib knowledge_base_id query max_results =
     try_except
       (and_then (call ''retrieve'' [JStr knowledge_base_id, JStr query, JInt max_results]
                   (retrieve w knowledge_base_id query max_results)) (\<lambda>response.
        pure_step (py_get response ''retrievalResults'' (JList []))))
       (\<lambda>e. and_then (print (''Error querying knowledge base: '' @ emsg e)) (\<lambda>_.
            and_then (case eresponse e of
                        Some r \<Rightarrow> print (''Error details: '' @ py_str lib r)
                      | None \<Rightarrow> ret ()) (\<lambda>_.
            ret (JList []))))"

section \<open>\<^verbatim>\<open>query_knowledge_base.py\<close>: querying with retrieve-and-generate\<close>

text \<open>\<^verbatim>\<open>str(i)\<close> for an integer.\<close>

definition str_int :: "int \<Rightarrow> string" where
  "str_int i = (if i < 0 then ''-'' @ str_nat (nat (- i)) else str_nat (nat i))"

text \<open>The first inner \<^verbatim>\<open>try\<close> (lines 39-47): the knowledge bases of the account.\<close>

definition print_knowledge_base :: "pylib \<Rightarrow> json \<Rightarrow> unit comp" where
  "print_knowledge_base lib kb =
     and_then (pure_step (py_item kb ''knowledgeBaseId'')) (\<lambda>kb_id.
     and_then (pure_step (py_get kb ''name'' (JStr ''N/A''))) (\<lambda>kb_name.
     and_then (pure_step (py_get kb ''status'' (JStr ''N/A''))) (\<lambda>kb_status.
     print (''- ID: '' @ py_str lib kb_id @ '', Name: '' @ py_str lib kb_name
            @ '', Status: '' @ py_str lib kb_status))))"

definition list_bases :: "world \<Rightarrow> pylib \<Rightarrow> unit comp" where
  "list_bases w lib =
     try_except
       (and_then (print (NL @ ''--- Listing available knowledge bases ---'')) (\<lambda>_.
        and_then (call ''boto3.client'' [JStr ''bedrock-agent''] (client_result (agent_client w))) (\<lambda>_.
        and_then (call ''list_knowledge_bases'' [] (list_knowledge_bases w)) (\<lambda>response.
        and_then (print ''Available Knowledge Bases:'') (\<lambda>_.
        and_then (pure_step (bindE (py_get response ''knowledgeBaseSummaries'' (JList [])) py_iter)) (\<lambda>kbs.
        for_each (print_knowledge_base lib) kbs))))))
       (\<lambda>e. print (''Warning: Could not list knowledge bases: '' @ emsg e))"

text \<open>The second inner \<^verbatim>\<open>try\<close> (lines 50-88): the knowledge base, its data sources, their jobs.\<close>

definition print_field :: "pylib \<Rightarrow> string \<Rightarrow> json \<Rightarrow> string \<Rightarrow> unit comp" where
  "print_field lib label obj k =
     and_then (pure_step (py_item obj k)) (\<lambda>v. print (label @ py_str lib v))"

definition print_job :: "pylib \<Rightarrow> json \<Rightarrow> unit comp" where
  "print_job lib job =
     and_then (print_field lib ''  - Job ID: '' job ''ingestionJobId'') (\<lambda>_.
     and_then (print_field lib ''    Status: '' job ''status'') (\<lambda>_.
     and_then (print_field lib ''    Started: '' job ''startedAt'') (\<lambda>_.
     and_then (print_field lib ''    Updated: '' job ''updatedAt'') (\<lambda>_.
     and_then (pure_step (py_get job ''statistics'' (JDict []))) (\<lambda>stats.
     and_then (pure_step (py_get stats ''numberOfDocumentsScanned'' (JInt 0))) (\<lambda>scanned.
     and_then (print (''    Documents Scanned: '' @ py_str lib scanned)) (\<lambda>_.
     and_then (pure_step (py_get stats ''numberOfNewDocumentsIndexed'' (JInt 0))) (\<lambda>indexed.
     and_then (print (''    New Documents: '' @ py_str lib indexed)) (\<lambda>_.
     and_then (pure_step (py_get stats ''numberOfDocumentsFailed'' (JInt 0))) (\<lambda>failed.
     print (''    Failed Documents: '' @ py_str lib failed)))))))))))"

definition print_data_source :: "world \<Rightarrow> pylib \<Rightarrow> string \<Rightarrow> json \<Rightarrow> unit comp" where
  "print_data_source w lib knowledge_base_id ds =
     and_then (pure_step (py_item ds ''dataSourceId'')) (\<lambda>ds_id.
     and_then (pure_step (py_get ds ''name'' JNull)) (\<lambda>ds_name.
     and_then (pure_step (py_get ds ''status'' JNull)) (\<lambda>ds_status.
     and_then (print (''- ID: '' @ py_str lib ds_id @ '', Name: '' @ py_str lib ds_name
                      @ '', Status: '' @ py_str lib ds_status)) (\<lambda>_.
     and_then (pure_step (py_item ds ''dataSourceId'')) (\<lambda>ds_id.
     and_then (call ''get_data_source'' [JStr knowledge_base_id, ds_id]
                 (get_data_source w knowledge_base_id ds_id)) (\<lambda>ds_details.
     and_then (pure_step
                 (bindE (py_get ds_details ''dataSource'' (JDict [])) (\<lambda>a.
                  bindE (py_get a ''dataSourceConfiguration'' (JDict [])) (\<lambda>b.
                  bindE (py_get b ''s3Configuration'' (JDict [])) (\<lambda>c.
                  py_get c ''bucketArn'' JNull))))) (\<lambda>bucket.
     and_then (print (''  S3 Location: '' @ py_str lib bucket)) (\<lambda>_.
     and_then (print ''  Ingestion Jobs:'') (\<lambda>_.
     and_then (pure_step (py_item ds ''dataSourceId'')) (\<lambda>ds_id.
     and_then (call ''list_ingestion_jobs'' [JStr knowledge_base_id, ds_id]
                 (list_ingestion_jobs w knowledge_base_id ds_id)) (\<lambda>jobs.
     and_then (pure_step (bindE (py_get jobs ''ingestionJobSummaries'' (JList [])) py_iter)) (\<lambda>js.
     for_each (print_job lib) js))))))))))))"

definition unbound_kb_client :: exn where
  "unbound_kb_client =
     Exn ''UnboundLocalError''
       (''cannot access local variable '' @ SQ @ ''kb_client'' @ SQ
        @ '' where it is not associated with a value'') None"

definition describe_base :: "world \<Rightarrow> pylib \<Rightarrow> string \<Rightarrow> unit comp" where
  "describe_base w lib knowledge_base_id =
     try_except
       (and_then (print (NL @ ''--- Getting knowledge base details ---'')) (\<lambda>_.
        and_then (case agent_client w of Some e \<Rightarrow> raise unbound_kb_client | None \<Rightarrow> ret ()) (\<lambda>_.
        and_then (call ''get_knowledge_base'' [JStr knowledge_base_id]
                    (get_knowledge_base w knowledge_base_id)) (\<lambda>kb_details.
        and_then (pure_step (bindE (py_get kb_details ''knowledgeBase'' (JDict []))
                               (\<lambda>kb. py_get kb ''status'' JNull))) (\<lambda>kb_status.
        and_then (print (''Knowledge Base Status: '' @ py_str lib kb_status)) (\<lambda>_.
        and_then (pure_step (bindE (py_get kb_details ''knowledgeBase'' (JDict []))
                               (\<lambda>kb. py_get kb ''roleArn'' JNull))) (\<lambda>role.
        and_then (print (''Knowledge Base Role ARN: '' @ py_str lib role)) (\<lambda>_.
        and_then (call ''list_data_sources'' [JStr knowledge_base_id]
                    (list_data_sources w knowledge_base_id)) (\<lambda>data_sources.
        and_then (print (NL @ ''Data Sources:'')) (\<lambda>_.
        and_then (pure_step (bindE (py_get data_sources ''dataSourceSummaries'' (JList [])) py_iter)) (\<lambda>dss.
        for_each (print_data_source w lib knowledge_base_id) dss)))))))))))
       (\<lambda>e. print (''Warning: Could not get knowledge base details: '' @ emsg e))"

text \<open>The handler of the outer \<^verbatim>\<open>try\<close> (lines 114-132).\<close>

definition empty_response :: json where
  "empty_response = JDict [(''retrievalResults'', JList [])]"

definition report_query_error :: "pylib \<Rightarrow> exn \<Rightarrow> json comp" where
  "report_query_error lib e =
     and_then (print (NL @ ''=== Error Details ==='')) (\<lambda>_.
     and_then (print (''Error Type: '' @ ename e)) (\<lambda>_.
     and_then (print (''Error Message: '' @ emsg e)) (\<lambda>_.
     and_then (case eresponse e of
                 Some r \<Rightarrow>
                   and_then (print (NL @ ''=== AWS Error Response ==='')) (\<lambda>_.
                   print (dumps_indent lib r))
               | None \<Rightarrow> ret ()) (\<lambda>_.
     and_then (print (NL @ ''=== Troubleshooting Tips ==='')) (\<lambda>_.
     and_then (print ''1. Verify the Knowledge Base ID is correct'') (\<lambda>_.
     and_then (print ''2. Check if the knowledge base is in ACTIVE state'') (\<lambda>_.
     and_then (print ''3. Verify the IAM role has necessary permissions'') (\<lambda>_.
     and_then (print ''4. Check if the knowledge base has been synced with data'') (\<lambda>_.
     and_then (print ''5. Check CloudWatch logs for detailed error information'') (\<lambda>_.
     and_then (print ''6. Verify the model ARN is correct and accessible in your region'') (\<lambda>_.
     ret empty_response)))))))))))"

definition query_knowledge_base ::
  "world \<Rightarrow> pylib \<Rightarrow> string \<Rightarrow> string \<Rightarrow> int \<Rightarrow> json comp" where
  "query_knowledge_base w lib knowledge_base_id query max_results =
     and_then (print (NL @ ''=== Debug - Querying Knowledge Base ==='')) (\<lambda>_.
     and_then (print (''Knowledge Base ID: '' @ knowledge_base_id)) (\<lambda>_.
     and_then (print (''Query: '' @ query)) (\<lambda>_.
     and_then (print (''Max Results: '' @ str_int max_results)) (\<lambda>_.
     try_except
       (and_then (list_bases w lib) (\<lambda>_.
        and_then (describe_base w lib knowledge_base_id) (\<lambda>_.
        and_then (print (NL @ ''--- Querying knowledge base using retrieve_and_generate ---'')) (\<lambda>_.
        and_then (call ''retrieve_and_generate'' [JStr query, JStr knowledge_base_id, JInt max_results]
                    (retrieve_and_generate w query knowledge_base_id max_results)) (\<lambda>response.
        and_then (print (NL @ ''=== Query Response ==='')) (\<lambda>_.
        and_then (print (dumps_indent lib response)) (\<lambda>_.
        ret response)))))))
       (report_query_error lib)))))"

section \<open>\<^verbatim>\<open>query_knowledge_base.py\<close>: the pipeline of \<^verbatim>\<open>main\<close>\<close>

record args =
  arg_knowledge_base_id :: string
  arg_model_id :: string
  arg_query :: "string option"
  arg_max_results :: int

definition rule80 :: "char \<Rightarrow> string" where
  "rule80 c = replicate 80 c"

text \<open>Lines 311-320 (and 273-283): the answer and its references.\<close>

definition show_answer :: "pylib \<Rightarrow> json \<Rightarrow> json \<Rightarrow> unit comp" where
  "show_answer lib response_text retrieval_results =
     and_then (print (NL @ rule80 CHR ''='')) (\<lambda>_.
     and_then (print ''RESPONSE:'') (\<lambda>_.
     and_then (print (rule80 CHR ''-'')) (\<lambda>_.
     and_then (pure_step (py_strip response_text)) (\<lambda>stripped.
     and_then (print stripped) (\<lambda>_.
     and_then (print (NL @ rule80 CHR ''='')) (\<lambda>_.
     and_then (print (NL @ ''REFERENCES:'')) (\<lambda>_.
     and_then (print (rule80 CHR ''-'')) (\<lambda>_.
     and_then (pure_step (format_references lib retrieval_results)) (\<lambda>refs.
     and_then (print refs) (\<lambda>_.
     print (rule80 CHR ''='' @ NL)))))))))))"

text \<open>The non-interactive branch of \<^verbatim>\<open>main\<close> (lines 294-325), for the query given.\<close>

definition main_query :: "world \<Rightarrow> pylib \<Rightarrow> args \<Rightarrow> string \<Rightarrow> unit comp" where
  "main_query w lib a query =
     try_except
       (and_then (print (''Querying knowledge base: '' @ query)) (\<lambda>_.
        and_then (query_knowledge_base w lib (arg_knowledge_base_id a) query (arg_max_results a)) (\<lambda>response.
        and_then (pure_step (py_get response ''retrievalResults'' (JList []))) (\<lambda>retrieval_results.
        if py_truthy retrieval_results then
          and_then (generate_response w lib (arg_model_id a) query retrieval_results) (\<lambda>response_text.
          show_answer lib response_text retrieval_results)
        else print ''No results found for your query.''))))
       (\<lambda>e. print (''Error: '' @ emsg e))"

text \<open>
  One turn of the interactive loop of \<^verbatim>\<open>main\<close> (lines 243-291), for the line that
  \<^verbatim>\<open>input\<close> returned; the result says whether the loop goes on.
\<close>

definition interactive_turn :: "world \<Rightarrow> pylib \<Rightarrow> args \<Rightarrow> string \<Rightarrow> bool \<times> event list" where
  "interactive_turn w lib a line =
     (let query = strip line;
          asked = Prompt (NL @ ''Enter your question: '')
      in if lower query \<in> set [''exit'', ''quit''] then (False, [asked])
         else if query = [] then (True, [asked])
         else (True, asked # snd (
           try_except
             (and_then (print (NL @ ''Searching knowledge base...'')) (\<lambda>_.
              and_then (query_knowledge_base w lib (arg_knowledge_base_id a) query (arg_max_results a)) (\<lambda>response.
              and_then (pure_step (py_get response ''retrievalResults'' (JList []))) (\<lambda>retrieval_results.
              if py_truthy retrieval_results then
                and_then (print (NL @ ''Generating response...'')) (\<lambda>_.
                and_then (generate_response w lib (arg_model_id a) query retrieval_results) (\<lambda>response_text.
                show_answer lib response_text retrieval_results))
              else print ''No results found for your query.''))))
             (\<lambda>e. print (''Error: '' @ emsg e)))))"

section \<open>Notions used to state the properties\<close>

text \<open>
  The text of a retrieved passage, when the passage is a dictionary whose \<^verbatim>\<open>content\<close> is a
  dictionary whose \<^verbatim>\<open>text\<close> is a string: what \<^verbatim>\<open>result['content']['text']\<close> reads.
\<close>

definition text_of :: "json \<Rightarrow> string option" where
  "text_of r =
     (case bindE (py_item r ''content'') (\<lambda>c. py_item c ''text'') of
        Inr (JStr s) \<Rightarrow> Some s
      | _ \<Rightarrow> None)"

definition metadata_ok :: "json \<Rightarrow> bool" where
  "metadata_ok r = (case py_get r ''metadata'' (JDict []) of Inr (JDict m) \<Rightarrow> True | _ \<Rightarrow> False)"

text \<open>
  A retrieved passage as the retrieval service delivers it: its text is present and its
  \<^verbatim>\<open>metadata\<close>, when present, is a dictionary.
\<close>

definition is_passage :: "json \<Rightarrow> bool" where
  "is_passage r = (text_of r \<noteq> None \<and> metadata_ok r)"

definition passage_text :: "json \<Rightarrow> string" where
  "passage_text r = (case text_of r of Some s \<Rightarrow> s | None \<Rightarrow> [])"

text \<open>
  The two service calls that only \<^verbatim>\<open>generate_response\<close> makes, and the traces free of them.
\<close>

fun is_generation_call :: "event \<Rightarrow> bool" where
  "is_generation_call (Call name args) =
     (name = ''invoke_model'' \<or> (name = ''boto3.client'' \<and> args = [JStr ''bedrock-runtime'']))"
| "is_generation_call ev = False"

fun no_generation :: "event list \<Rightarrow> bool" where
  "no_generation [] = True"
| "no_generation (ev # t) = (\<not> is_generation_call ev \<and> no_generation t)"

section \<open>Sample data\<close>

text \<open>
  Concrete inputs on which the properties below are exercised. \<open>stub_lib\<close> stands in for
  the interpreter's renderings: each one is the name of the type of the value.
  \<open>scripted_world r g\<close> answers both retrieval operations with \<open>r\<close> and the model
  invocation with \<open>g\<close>; its administrative operations answer an empty dictionary.
\<close>

definition stub_format :: "json \<Rightarrow> exn + string" where
  "stub_format v = Inr (type_name v)"

definition stub_lib :: pylib where
  "stub_lib = \<lparr>str_of = type_name, format_2f = stub_format, dumps_indent = type_name\<rparr>"

definition sample_passage :: "string \<Rightarrow> string \<Rightarrow> json" where
  "sample_passage t uri =
     JDict [(''content'', JDict [(''text'', JStr t)]),
            (''location'', JDict [(''s3Location'', JDict [(''uri'', JStr uri)])]),
            (''score'', JFloat (3 / 4)),
            (''metadata'', JDict [(''source'', JStr uri)])]"

definition sample_passages :: "json list" where
  "sample_passages = [sample_passage ''first'' ''s3://a'', sample_passage ''second'' ''s3://b'']"

definition sample_query :: string where
  "sample_query = ''What is the payload?''"

definition scripted_world :: "(exn + json) \<Rightarrow> (exn + json) \<Rightarrow> world" where
  "scripted_world retrieval generation =
     \<lparr>agent_client = None,
      list_knowledge_bases = Inr (JDict []),
      get_knowledge_base = (\<lambda>_. Inr (JDict [])),
      list_data_sources = (\<lambda>_. Inr (JDict [])),
      get_data_source = (\<lambda>_ _. Inr (JDict [])),
      list_ingestion_jobs = (\<lambda>_ _. Inr (JDict [])),
      retrieve_and_generate = (\<lambda>_ _ _. retrieval),
      retrieve = (\<lambda>_ _ _. retrieval),
      runtime_client = None,
      invoke_model = (\<lambda>_ _. generation)\<rparr>"

definition service_error :: exn where
  "service_error =
     Exn ''ClientError'' ''An error occurred (ThrottlingException): Too many requests''
       (Some (JDict [(''Error'', JDict [(''Code'', JStr ''ThrottlingException'')])]))"

definition default_args :: args where
  "default_args =
     \<lparr>arg_knowledge_base_id = ''HBPKZNSUMS'', arg_model_id = ''anthropic.claude-v2'',
      arg_query = None, arg_max_results = 3\<rparr>"

section \<open>Basic facts\<close>

subsection \<open>Steps and traces\<close>

lemmas comp_defs = ret_def raise_def pure_step_def print_def call_def

lemma bindE_simps [simp]:
  "bindE (Inl e) f = Inl e"
  "bindE (Inr x) f = f x"
  by (simp_all add: bindE_def)

lemma and_then_simps [simp]:
  "and_then (Inl e, t) f = (Inl e, t)"
  "and_then (Inr x, t) f = (fst (f x), t @ snd (f x))"
  by (simp_all add: and_then_def split: prod.splits)

lemma try_except_simps [simp]:
  "try_except (Inl e, t) h = (fst (h e), t @ snd (h e))"
  "try_except (Inr x, t) h = (Inr x, t)"
  by (simp_all add: try_except_def split: prod.splits)

lemma fst_and_then:
  "fst (and_then m f) = (case fst m of Inl e \<Rightarrow> Inl e | Inr x \<Rightarrow> fst (f x))"
  by (cases m; cases "fst m") auto

lemma snd_and_then:
  "snd (and_then m f) = (case fst m of Inl e \<Rightarrow> snd m | Inr x \<Rightarrow> snd m @ snd (f x))"
  by (cases m; cases "fst m") auto

lemma try_print_total:
  "fst (try_except m (\<lambda>e. print (f e))) = Inr ()"
  by (cases m; cases "fst m") (auto simp: print_def)

lemma list_bases_total: "fst (list_bases w lib) = Inr ()"
  unfolding list_bases_def by (rule try_print_total)

lemma describe_base_total: "fst (describe_base w lib kb) = Inr ()"
  unfolding describe_base_def by (rule try_print_total)

lemma scripted_world_simps [simp]:
  "runtime_client (scripted_world r g) = None"
  "agent_client (scripted_world r g) = None"
  "invoke_model (scripted_world r g) mid body = g"
  "retrieve_and_generate (scripted_world r g) q kb n = r"
  "retrieve (scripted_world r g) kb q n = r"
  by (simp_all add: scripted_world_def)

subsection \<open>Joining and the two formatting loops\<close>

lemma join_Cons: "join sep (x # xs) = x @ (if xs = [] then [] else sep @ join sep xs)"
  by (cases xs) simp_all

lemma join_adjacent:
  "Suc i < length xs \<Longrightarrow> \<exists>pre post. join sep xs = pre @ xs ! i @ sep @ xs ! Suc i @ post"
proof (induction xs arbitrary: i)
  case Nil
  then show ?case by simp
next
  case (Cons x xs)
  show ?case
  proof (cases i)
    case 0
    with Cons.prems obtain y ys where xs: "xs = y # ys" by (cases xs) auto
    have "join sep (x # xs) = [] @ x @ sep @ y @ (if ys = [] then [] else sep @ join sep ys)"
      by (simp add: xs join_Cons)
    with 0 xs show ?thesis by (metis nth_Cons_0 nth_Cons_Suc)
  next
    case (Suc j)
    with Cons.prems have "Suc j < length xs" by simp
    from Cons.IH [OF this] obtain pre post
      where "join sep xs = pre @ xs ! j @ sep @ xs ! Suc j @ post" by blast
    moreover from \<open>Suc j < length xs\<close> have "xs \<noteq> []" by auto
    ultimately have "join sep (x # xs) = (x @ sep @ pre) @ xs ! j @ sep @ xs ! Suc j @ post"
      by (simp add: join_Cons)
    with Suc show ?thesis by (metis nth_Cons_Suc)
  qed
qed

lemma text_of_SomeD:
  assumes "text_of r = Some s"
  obtains kvs c where "r = JDict kvs" "map_of kvs ''content'' = Some (JDict c)"
    "map_of c ''text'' = Some (JStr s)"
proof -
  from assms obtain kvs where r: "r = JDict kvs"
    by (cases r) (simp_all add: text_of_def)
  from assms r obtain cv where cv: "map_of kvs ''content'' = Some cv"
    by (cases "map_of kvs ''content''") (simp_all add: text_of_def)
  from assms r cv obtain c where c: "cv = JDict c"
    by (cases cv) (simp_all add: text_of_def)
  from assms r cv c obtain tv where tv: "map_of c ''text'' = Some tv"
    by (cases "map_of c ''text''") (simp_all add: text_of_def)
  from assms r cv c tv have "tv = JStr s"
    by (cases tv) (simp_all add: text_of_def)
  with r cv c tv that show thesis by simp
qed

lemma reference_dict:
  assumes "map_of kvs ''content'' = Some (JDict c)" "map_of c ''text'' = Some (JStr s)"
    and "py_get (JDict kvs) ''metadata'' (JDict []) = Inr (JDict m)"
  shows "reference lib i (JDict kvs) =
     Inr (NL @ ''--- Reference '' @ str_nat i @ '' ---'' @ NL
          @ ''Source: '' @ py_str lib (case map_of m ''source'' of Some v \<Rightarrow> v | None \<Rightarrow> JStr ''Unknown'') @ NL
          @ ''Page: '' @ py_str lib (case map_of m ''page_number'' of Some v \<Rightarrow> v | None \<Rightarrow> JStr ''N/A'') @ NL
          @ ''Content: '' @ take 200 s @ ''...'')"
  using assms by (simp add: reference_def py_str_def)

lemma reference_passage:
  assumes "text_of r = Some s" "metadata_ok r"
  shows "\<exists>src page. reference lib i r =
     Inr (NL @ ''--- Reference '' @ str_nat i @ '' ---'' @ NL
          @ ''Source: '' @ src @ NL @ ''Page: '' @ page @ NL
          @ ''Content: '' @ take 200 s @ ''...'')"
proof -
  from assms(1) obtain kvs c where r: "r = JDict kvs"
    and c: "map_of kvs ''content'' = Some (JDict c)" and t: "map_of c ''text'' = Some (JStr s)"
    by (rule text_of_SomeD)
  from assms(2) r obtain m where m: "py_get (JDict kvs) ''metadata'' (JDict []) = Inr (JDict m)"
    by (auto simp: metadata_ok_def split: sum.splits json.splits)
  from reference_dict [OF c t m] r show ?thesis by blast
qed

lemma references_length:
  "references lib i rs = Inr refs \<Longrightarrow> length refs = length rs"
  by (induction rs arbitrary: i refs) (auto split: sum.splits)

lemma references_nth:
  "references lib i rs = Inr refs \<Longrightarrow> j < length rs \<Longrightarrow> reference lib (i + j) (rs ! j) = Inr (refs ! j)"
proof (induction rs arbitrary: i refs j)
  case Nil
  then show ?case by simp
next
  case (Cons r rs)
  from Cons.prems(1) obtain x xs where x: "reference lib i r = Inr x"
    and xs: "references lib (Suc i) rs = Inr xs" and refs: "refs = x # xs"
    by (auto split: sum.splits)
  show ?case
  proof (cases j)
    case 0
    with x refs show ?thesis by simp
  next
    case (Suc k)
    with Cons.prems(2) have "k < length rs" by simp
    from Cons.IH [OF xs this] Suc refs show ?thesis by simp
  qed
qed

lemma references_total:
  "list_all is_passage rs \<Longrightarrow> \<exists>refs. references lib i rs = Inr refs"
proof (induction rs arbitrary: i)
  case Nil
  then show ?case by simp
next
  case (Cons r rs)
  then obtain s where "text_of r = Some s" "metadata_ok r" by (auto simp: is_passage_def)
  from reference_passage [OF this] obtain x where "reference lib i r = Inr x" by blast
  moreover from Cons obtain xs where "references lib (Suc i) rs = Inr xs" by auto
  ultimately show ?case by simp
qed

lemma source_block_passage:
  assumes "text_of r = Some s"
  shows "source_block lib i r = Inr (''Source '' @ str_nat (i + 1) @ '':'' @ NL @ s)"
proof -
  from assms obtain kvs c where "r = JDict kvs"
    "map_of kvs ''content'' = Some (JDict c)" "map_of c ''text'' = Some (JStr s)"
    by (rule text_of_SomeD)
  then show ?thesis by (simp add: source_block_def py_str_def)
qed

lemma source_blocks_length:
  "source_blocks lib i rs = Inr blocks \<Longrightarrow> length blocks = length rs"
  by (induction rs arbitrary: i blocks) (auto split: sum.splits)

lemma source_blocks_nth:
  "source_blocks lib i rs = Inr blocks \<Longrightarrow> j < length rs \<Longrightarrow>
     source_block lib (i + j) (rs ! j) = Inr (blocks ! j)"
proof (induction rs arbitrary: i blocks j)
  case Nil
  then show ?case by simp
next
  case (Cons r rs)
  from Cons.prems(1) obtain x xs where x: "source_block lib i r = Inr x"
    and xs: "source_blocks lib (Suc i) rs = Inr xs" and blocks: "blocks = x # xs"
    by (auto split: sum.splits)
  show ?case
  proof (cases j)
    case 0
    with x blocks show ?thesis by simp
  next
    case (Suc k)
    with Cons.prems(2) have "k < length rs" by simp
    from Cons.IH [OF xs this] Suc blocks show ?thesis by simp
  qed
qed

lemma source_blocks_total:
  "list_all is_passage rs \<Longrightarrow> \<exists>blocks. source_blocks lib i rs = Inr blocks"
proof (induction rs arbitrary: i)
  case Nil
  then show ?case by simp
next
  case (Cons r rs)
  then obtain s where "text_of r = Some s" by (auto simp: is_passage_def)
  then have "source_block lib i r = Inr (''Source '' @ str_nat (i + 1) @ '':'' @ NL @ s)"
    by (rule source_block_passage)
  moreover from Cons obtain xs where "source_blocks lib (Suc i) rs = Inr xs" by auto
  ultimately show ?case by simp
qed

lemma preview_long:
  "200 < length s \<Longrightarrow> preview (JStr s) = Inr (JStr (take 200 s @ ''...''))"
  by (simp add: preview_def)

lemma preview_short:
  "length s \<le> 200 \<Longrightarrow> preview (JStr s) = Inr (JStr s)"
  by (simp add: preview_def)

lemma is_passage_sample [simp]: "is_passage (sample_passage t uri)"
  by (simp add: is_passage_def text_of_def metadata_ok_def sample_passage_def)

lemma passage_text_sample [simp]: "passage_text (sample_passage t uri) = t"
  by (simp add: passage_text_def text_of_def sample_passage_def)

lemma sample_passages_ok: "list_all is_passage sample_passages"
  by (simp add: sample_passages_def)

lemma sample_context:
  "prompt_context stub_lib (JList [sample_passage ''first'' ''s3://a'']) = Inr (''Source 1:'' @ NL @ ''first'')"
  by (simp add: prompt_context_def source_block_def sample_passage_def py_str_def str_nat.simps)

lemma lower_claude: "contains ''claude'' (lower ''anthropic.claude-v2'')"
  by (simp add: lower_def lower_char_def)

lemma lower_titan:
  "\<not> contains ''claude'' (lower ''amazon.titan-text-express-v1'')"
  "contains ''titan'' (lower ''amazon.titan-text-express-v1'')"
  by (simp_all add: lower_def lower_char_def)

lemma sample_strip: "strip ''  What is the payload?  '' = ''What is the payload?''"
  by (simp add: strip_def is_space_def)

lemma sample_not_exit:
  "lower ''What is the payload?'' \<noteq> ''exit''" "lower ''What is the payload?'' \<noteq> ''quit''"
  by (simp_all add: lower_def lower_char_def)

subsection \<open>Traces without a generation call\<close>

lemma no_generation_append [simp]:
  "no_generation (s @ t) = (no_generation s \<and> no_generation t)"
  by (induction s) auto

lemma no_generation_and_then:
  "no_generation (snd m) \<Longrightarrow> (\<And>x. no_generation (snd (f x))) \<Longrightarrow> no_generation (snd (and_then m f))"
  by (cases m; cases "fst m") auto

lemma no_generation_try_except:
  "no_generation (snd m) \<Longrightarrow> (\<And>e. no_generation (snd (h e))) \<Longrightarrow> no_generation (snd (try_except m h))"
  by (cases m; cases "fst m") auto

lemma no_generation_for_each:
  "(\<And>x. no_generation (snd (body x))) \<Longrightarrow> no_generation (snd (for_each body xs))"
  by (induction xs) (auto simp: ret_def intro: no_generation_and_then)

lemma no_generation_print [simp]: "no_generation (snd (print s))"
  by (simp add: print_def)

lemma no_generation_pure_step [simp]: "no_generation (snd (pure_step r))"
  by (simp add: pure_step_def)

lemma no_generation_ret [simp]: "no_generation (snd (ret x))"
  by (simp add: ret_def)

lemma no_generation_raise [simp]: "no_generation (snd (raise e))"
  by (simp add: raise_def)

lemmas no_generation_intros =
  no_generation_and_then no_generation_try_except no_generation_for_each

lemma no_generation_print_field: "no_generation (snd (print_field lib label obj k))"
  unfolding print_field_def by (intro no_generation_intros) simp_all

lemma no_generation_print_job: "no_generation (snd (print_job lib job))"
  unfolding print_job_def by (intro no_generation_intros no_generation_print_field) simp_all

lemma no_generation_print_knowledge_base: "no_generation (snd (print_knowledge_base lib kb))"
  unfolding print_knowledge_base_def by (intro no_generation_intros) simp_all

lemma no_generation_list_bases: "no_generation (snd (list_bases w lib))"
  unfolding list_bases_def
  by (intro no_generation_intros no_generation_print_knowledge_base) (simp_all add: call_def)

lemma no_generation_print_data_source:
  "no_generation (snd (print_data_source w lib kb ds))"
  unfolding print_data_source_def
  by (intro no_generation_intros no_generation_print_job) (simp_all add: call_def)

lemma no_generation_describe_base: "no_generation (snd (describe_base w lib kb))"
  unfolding describe_base_def
  by (intro no_generation_intros no_generation_print_data_source)
     (simp_all add: call_def split: option.splits)

lemma no_generation_report: "no_generation (snd (report_query_error lib e))"
  unfolding report_query_error_def
  by (intro no_generation_intros) (simp_all split: option.splits add: no_generation_and_then)

lemma no_generation_query: "no_generation (snd (query_knowledge_base w lib kb q n))"
  unfolding query_knowledge_base_def
  by (intro no_generation_intros no_generation_list_bases no_generation_describe_base
        no_generation_report) (simp_all add: call_def)

subsection \<open>The runs of the query, of the generation and of the pipeline\<close>

lemma query_knowledge_base_total: "\<exists>r. fst (query_knowledge_base w lib kb q n) = Inr r"
proof -
  obtain t1 where t1: "list_bases w lib = (Inr (), t1)"
    using list_bases_total [of w lib] by (cases "list_bases w lib") auto
  obtain t2 where t2: "describe_base w lib kb = (Inr (), t2)"
    using describe_base_total [of w lib kb] by (cases "describe_base w lib kb") auto
  show ?thesis
    by (cases "retrieve_and_generate w q kb n"; cases "eresponse (projl (retrieve_and_generate w q kb n))")
       (simp_all add: query_knowledge_base_def report_query_error_def comp_defs t1 t2)
qed

lemma report_query_error_result: "fst (report_query_error lib e) = Inr empty_response"
  by (cases "eresponse e") (simp_all add: report_query_error_def comp_defs)

lemma report_query_error_message:
  "Print (''Error Message: '' @ emsg e) \<in> set (snd (report_query_error lib e))"
  by (cases "eresponse e") (simp_all add: report_query_error_def comp_defs)

lemma query_knowledge_base_failure:
  assumes "retrieve_and_generate w q kb n = Inl e"
  shows "query_knowledge_base w lib kb q n =
     (Inr empty_response,
      [Print (NL @ ''=== Debug - Querying Knowledge Base ===''),
       Print (''Knowledge Base ID: '' @ kb), Print (''Query: '' @ q),
       Print (''Max Results: '' @ str_int n)]
      @ snd (list_bases w lib) @ snd (describe_base w lib kb)
      @ [Print (NL @ ''--- Querying knowledge base using retrieve_and_generate ---''),
         Call ''retrieve_and_generate'' [JStr q, JStr kb, JInt n]]
      @ snd (report_query_error lib e))"
proof -
  obtain t1 where t1: "list_bases w lib = (Inr (), t1)"
    using list_bases_total [of w lib] by (cases "list_bases w lib") auto
  obtain t2 where t2: "describe_base w lib kb = (Inr (), t2)"
    using describe_base_total [of w lib kb] by (cases "describe_base w lib kb") auto
  show ?thesis
    using assms report_query_error_result [of lib e]
    by (simp add: query_knowledge_base_def comp_defs t1 t2)
qed

lemma query_knowledge_base_success:
  assumes "retrieve_and_generate w q kb n = Inr response"
  shows "query_knowledge_base w lib kb q n =
     (Inr response,
      [Print (NL @ ''=== Debug - Querying Knowledge Base ===''),
       Print (''Knowledge Base ID: '' @ kb), Print (''Query: '' @ q),
       Print (''Max Results: '' @ str_int n)]
      @ snd (list_bases w lib) @ snd (describe_base w lib kb)
      @ [Print (NL @ ''--- Querying knowledge base using retrieve_and_generate ---''),
         Call ''retrieve_and_generate'' [JStr q, JStr kb, JInt n],
         Print (NL @ ''=== Query Response ===''), Print (dumps_indent lib response)])"
proof -
  obtain t1 where t1: "list_bases w lib = (Inr (), t1)"
    using list_bases_total [of w lib] by (cases "list_bases w lib") auto
  obtain t2 where t2: "describe_base w lib kb = (Inr (), t2)"
    using describe_base_total [of w lib kb] by (cases "describe_base w lib kb") auto
  show ?thesis
    using assms by (simp add: query_knowledge_base_def comp_defs t1 t2)
qed

lemma generate_response_run:
  assumes "prompt_context lib rs = Inr ctx" "runtime_client w = None"
  shows "generate_response w lib mid prompt rs =
     (case invoke_model w mid (request_body mid (full_prompt ctx prompt)) of
        Inl e \<Rightarrow>
          (Inl e,
           [Call ''boto3.client'' [JStr ''bedrock-runtime''],
            Call ''invoke_model'' [JStr mid, request_body mid (full_prompt ctx prompt)],
            Print (''Error generating response: '' @ emsg e)])
      | Inr body \<Rightarrow>
          (case extract_text lib mid body of
             Inl e \<Rightarrow>
               (Inl e,
                [Call ''boto3.client'' [JStr ''bedrock-runtime''],
                 Call ''invoke_model'' [JStr mid, request_body mid (full_prompt ctx prompt)],
                 Print (''Error generating response: '' @ emsg e)])
           | Inr v \<Rightarrow>
               (Inr v,
                [Call ''boto3.client'' [JStr ''bedrock-runtime''],
                 Call ''invoke_model'' [JStr mid, request_body mid (full_prompt ctx prompt)]])))"
  using assms
  by (simp add: generate_response_def comp_defs client_result_def split: sum.splits)

lemma generate_response_calls:
  assumes "prompt_context lib rs = Inr ctx" "runtime_client w = None"
  shows "\<exists>rest. snd (generate_response w lib mid prompt rs) =
     Call ''boto3.client'' [JStr ''bedrock-runtime'']
     # Call ''invoke_model'' [JStr mid, request_body mid (full_prompt ctx prompt)]
     # rest"
  using generate_response_run [OF assms, of mid prompt]
  by (auto split: sum.splits)

lemma main_query_no_results:
  assumes "fst (query_knowledge_base w lib (arg_knowledge_base_id a) q (arg_max_results a)) = Inr response"
    and "py_get response ''retrievalResults'' (JList []) = Inr rr" and "\<not> py_truthy rr"
  shows "main_query w lib a q =
     (Inr (),
      Print (''Querying knowledge base: '' @ q)
      # snd (query_knowledge_base w lib (arg_knowledge_base_id a) q (arg_max_results a))
      @ [Print ''No results found for your query.''])"
proof -
  obtain t where t: "query_knowledge_base w lib (arg_knowledge_base_id a) q (arg_max_results a) = (Inr response, t)"
    using assms(1) by (cases "query_knowledge_base w lib (arg_knowledge_base_id a) q (arg_max_results a)") auto
  show ?thesis
    using assms(2,3) by (simp add: main_query_def comp_defs t)
qed

lemma interactive_turn_no_results:
  assumes "fst (query_knowledge_base w lib (arg_knowledge_base_id a) (strip line) (arg_max_results a)) = Inr response"
    and "py_get response ''retrievalResults'' (JList []) = Inr rr" and "\<not> py_truthy rr"
    and "strip line \<noteq> []" and "lower (strip line) \<noteq> ''exit''" and "lower (strip line) \<noteq> ''quit''"
  shows "interactive_turn w lib a line =
     (True,
      Prompt (NL @ ''Enter your question: '')
      # Print (NL @ ''Searching knowledge base...'')
      # snd (query_knowledge_base w lib (arg_knowledge_base_id a) (strip line) (arg_max_results a))
      @ [Print ''No results found for your query.''])"
proof -
  obtain t where t: "query_knowledge_base w lib (arg_knowledge_base_id a) (strip line) (arg_max_results a) = (Inr response, t)"
    using assms(1) by (cases "query_knowledge_base w lib (arg_knowledge_base_id a) (strip line) (arg_max_results a)") auto
  show ?thesis
    using assms(2-6) by (simp add: interactive_turn_def Let_def comp_defs t)
qed

lemma main_query_generation_failure:
  assumes "fst (query_knowledge_base w lib (arg_knowledge_base_id a) q (arg_max_results a)) = Inr response"
    and "py_get response ''retrievalResults'' (JList []) = Inr rr" and "py_truthy rr"
    and "prompt_context lib rr = Inr ctx" and "runtime_client w = None"
    and "invoke_model w (arg_model_id a) (request_body (arg_model_id a) (full_prompt ctx q)) = Inl e"
  shows "main_query w lib a q =
     (Inr (),
      Print (''Querying knowledge base: '' @ q)
      # snd (query_knowledge_base w lib (arg_knowledge_base_id a) q (arg_max_results a))
      @ [Call ''boto3.client'' [JStr ''bedrock-runtime''],
         Call ''invoke_model'' [JStr (arg_model_id a), request_body (arg_model_id a) (full_prompt ctx q)],
         Print (''Error generating response: '' @ emsg e),
         Print (''Error: '' @ emsg e)])"
proof -
  obtain t where t: "query_knowledge_base w lib (arg_knowledge_base_id a) q (arg_max_results a) = (Inr response, t)"
    using assms(1) by (cases "query_knowledge_base w lib (arg_knowledge_base_id a) q (arg_max_results a)") auto
  show ?thesis
    using assms(2,3,6)
    by (simp add: main_query_def comp_defs t generate_response_run [OF assms(4,5)])
qed

section \<open>The properties\<close>

subsection \<open>C1: the preview of a passage\<close>

text \<open>
  The sibling formatter \<^verbatim>\<open>format_results\<close> cuts a content longer than 200 characters to its
  first 200 and appends the marker, and shows a shorter content as it is.
\<close>

lemma format_results_short_content:
  "format_2f lib (JInt 0) = Inr z \<Longrightarrow>
   format_results lib (JList [JDict [(''content'', JDict [(''text'', JStr ''abc'')])]]) =
     Inr (''=== Search Results ==='' @ NL @ NL @ ''Result 1 (Relevance: '' @ z @ ''):'' @ NL
          @ ''Source: Unknown source'' @ NL @ ''Content: abc'')"
  by (simp add: format_results_def result_lines_def preview_def py_str_def str_nat.simps)

text \<open>
  Claim C1 says that both formatters show a content of at most 200 characters with no
  ellipsis marker. \<^verbatim>\<open>format_references\<close> appends the marker whatever the length: for the
  single passage whose content is \<^verbatim>\<open>abc\<close> its entry ends in \<^verbatim>\<open>Content: abc...\<close>.
\<close>

theorem format_references_short_content:
  "format_references lib (JList [JDict [(''content'', JDict [(''text'', JStr ''abc'')])]]) =
     Inr (NL @ ''--- Reference 1 ---'' @ NL @ ''Source: Unknown'' @ NL @ ''Page: N/A'' @ NL
          @ ''Content: abc...'')"
  by (simp add: format_references_def reference_def py_str_def str_nat.simps)

subsection \<open>C2: one reference entry per passage\<close>

text \<open>
  Claim C2, with the sentinel as the code writes it. \<^verbatim>\<open>format_references\<close> is a function of
  its argument alone (it takes no service and leaves no trace). On the empty sequence it
  returns \<^verbatim>\<open>No references found.\<close>, full stop included; on a non-empty sequence of
  passages its loop builds exactly one entry per passage and the result is these entries
  joined by a line break.
\<close>

theorem format_references_count:
  "format_references lib (JList []) = Inr ''No references found.'' \<and>
   (rs \<noteq> [] \<longrightarrow> list_all is_passage rs \<longrightarrow>
      (\<exists>refs. references lib 1 rs = Inr refs \<and> length refs = length rs \<and>
              format_references lib (JList rs) = Inr (join NL refs)))"
proof (intro conjI impI)
  show "format_references lib (JList []) = Inr ''No references found.''"
    by (simp add: format_references_def)
next
  assume ne: "rs \<noteq> []" and ps: "list_all is_passage rs"
  from references_total [OF ps] obtain refs where refs: "references lib 1 rs = Inr refs"
    by blast
  have "length refs = length rs" using refs by (rule references_length)
  moreover have "format_references lib (JList rs) = Inr (join NL refs)"
    using ne refs by (simp add: format_references_def)
  ultimately show "\<exists>refs. references lib 1 rs = Inr refs \<and> length refs = length rs \<and>
              format_references lib (JList rs) = Inr (join NL refs)"
    using refs by blast
qed

theorem format_references_count_witness:
  "[sample_passage ''first'' ''s3://a'', sample_passage ''second'' ''s3://b''] \<noteq> []
   \<and> list_all is_passage [sample_passage ''first'' ''s3://a'', sample_passage ''second'' ''s3://b'']
   \<and> (\<exists>refs. references stub_lib 1 [sample_passage ''first'' ''s3://a'', sample_passage ''second'' ''s3://b''] = Inr refs
      \<and> length refs = length [sample_passage ''first'' ''s3://a'', sample_passage ''second'' ''s3://b'']
      \<and> format_references stub_lib (JList [sample_passage ''first'' ''s3://a'', sample_passage ''second'' ''s3://b''])
          = Inr (join NL refs))"
  using format_references_count [of stub_lib "[sample_passage ''first'' ''s3://a'', sample_passage ''second'' ''s3://b'']"]
  by simp

text \<open>
  The sentinel is not the literal \<^verbatim>\<open>No references found\<close> of the claim.
\<close>

theorem format_references_sentinel_counterexample:
  "format_references stub_lib (JList []) \<noteq> Inr ''No references found''"
  by (simp add: format_references_def)

subsection \<open>C3: the retrieval order is kept\<close>

text \<open>
  Claim C3. For every sequence of passages, the context of \<^verbatim>\<open>generate_response\<close> is the
  blocks of the passages joined by a double line break, the block at position \<open>i\<close> is
  labelled \<^verbatim>\<open>Source i+1\<close> and carries the text of the passage at position \<open>i\<close>, and it stands
  right before the block of the next passage; this context is the one in the prompt sent
  to the model. The reference list is built the same way: the entry at position \<open>i\<close> is the
  entry that the loop body makes of the passage at position \<open>i\<close> with index \<open>i+1\<close>, it is
  headed \<^verbatim>\<open>Reference i+1\<close> and shows the first 200 characters of the text of that passage,
  and it stands right before the entry of the next passage.
\<close>

theorem rank_order_preserved:
  assumes "list_all is_passage rs"
  shows "\<exists>blocks refs.
     prompt_context lib (JList rs) = Inr (join (NL @ NL) blocks) \<and> length blocks = length rs \<and>
     (runtime_client w = None \<longrightarrow>
        (\<exists>rest. snd (generate_response w lib mid prompt (JList rs)) =
           Call ''boto3.client'' [JStr ''bedrock-runtime'']
           # Call ''invoke_model'' [JStr mid, request_body mid (full_prompt (join (NL @ NL) blocks) prompt)]
           # rest)) \<and>
     references lib 1 rs = Inr refs \<and> length refs = length rs \<and>
     (rs \<noteq> [] \<longrightarrow> format_references lib (JList rs) = Inr (join NL refs)) \<and>
     (\<forall>i. i < length rs \<longrightarrow>
        blocks ! i = ''Source '' @ str_nat (i + 1) @ '':'' @ NL @ passage_text (rs ! i) \<and>
        reference lib (i + 1) (rs ! i) = Inr (refs ! i) \<and>
        (\<exists>src page. refs ! i =
           NL @ ''--- Reference '' @ str_nat (i + 1) @ '' ---'' @ NL
           @ ''Source: '' @ src @ NL @ ''Page: '' @ page @ NL
           @ ''Content: '' @ take 200 (passage_text (rs ! i)) @ ''...'')) \<and>
     (\<forall>i. Suc i < length rs \<longrightarrow>
        (\<exists>pre post. join (NL @ NL) blocks = pre @ blocks ! i @ (NL @ NL) @ blocks ! Suc i @ post) \<and>
        (\<exists>pre post. join NL refs = pre @ refs ! i @ NL @ refs ! Suc i @ post))"
proof -
  from source_blocks_total [OF assms] obtain blocks
    where blocks: "source_blocks lib 0 rs = Inr blocks" by blast
  from references_total [OF assms] obtain refs
    where refs: "references lib 1 rs = Inr refs" by blast
  have lb: "length blocks = length rs" using blocks by (rule source_blocks_length)
  have lr: "length refs = length rs" using refs by (rule references_length)
  have ctx: "prompt_context lib (JList rs) = Inr (join (NL @ NL) blocks)"
    using blocks by (simp add: prompt_context_def)
  have sent: "runtime_client w = None \<longrightarrow>
        (\<exists>rest. snd (generate_response w lib mid prompt (JList rs)) =
           Call ''boto3.client'' [JStr ''bedrock-runtime'']
           # Call ''invoke_model'' [JStr mid, request_body mid (full_prompt (join (NL @ NL) blocks) prompt)]
           # rest)"
    using generate_response_calls [OF ctx] by blast
  have fr: "rs \<noteq> [] \<longrightarrow> format_references lib (JList rs) = Inr (join NL refs)"
    using refs by (simp add: format_references_def)
  have labels: "blocks ! i = ''Source '' @ str_nat (i + 1) @ '':'' @ NL @ passage_text (rs ! i) \<and>
        reference lib (i + 1) (rs ! i) = Inr (refs ! i) \<and>
        (\<exists>src page. refs ! i =
           NL @ ''--- Reference '' @ str_nat (i + 1) @ '' ---'' @ NL
           @ ''Source: '' @ src @ NL @ ''Page: '' @ page @ NL
           @ ''Content: '' @ take 200 (passage_text (rs ! i)) @ ''...'')"
    if i: "i < length rs" for i
  proof -
    from assms i have p: "is_passage (rs ! i)" by (simp add: list_all_length)
    then obtain s where s: "text_of (rs ! i) = Some s" and m: "metadata_ok (rs ! i)"
      by (auto simp: is_passage_def)
    from source_blocks_nth [OF blocks i] source_block_passage [OF s, of lib i]
    have "blocks ! i = ''Source '' @ str_nat (i + 1) @ '':'' @ NL @ s" by simp
    moreover from references_nth [OF refs i]
    have r: "reference lib (i + 1) (rs ! i) = Inr (refs ! i)" by simp
    moreover from reference_passage [OF s m, of lib "i + 1"] r
    have "\<exists>src page. refs ! i =
           NL @ ''--- Reference '' @ str_nat (i + 1) @ '' ---'' @ NL
           @ ''Source: '' @ src @ NL @ ''Page: '' @ page @ NL
           @ ''Content: '' @ take 200 s @ ''...''"
      by auto
    ultimately show ?thesis using s by (simp add: passage_text_def)
  qed
  have order: "(\<exists>pre post. join (NL @ NL) blocks = pre @ blocks ! i @ (NL @ NL) @ blocks ! Suc i @ post) \<and>
        (\<exists>pre post. join NL refs = pre @ refs ! i @ NL @ refs ! Suc i @ post)"
    if i: "Suc i < length rs" for i
    using join_adjacent [of i blocks "NL @ NL"] join_adjacent [of i refs NL] i lb lr by simp
  have all_labels: "\<forall>i. i < length rs \<longrightarrow>
        blocks ! i = ''Source '' @ str_nat (i + 1) @ '':'' @ NL @ passage_text (rs ! i) \<and>
        reference lib (i + 1) (rs ! i) = Inr (refs ! i) \<and>
        (\<exists>src page. refs ! i =
           NL @ ''--- Reference '' @ str_nat (i + 1) @ '' ---'' @ NL
           @ ''Source: '' @ src @ NL @ ''Page: '' @ page @ NL
           @ ''Content: '' @ take 200 (passage_text (rs ! i)) @ ''...'')"
    using labels by blast
  have all_order: "\<forall>i. Suc i < length rs \<longrightarrow>
        (\<exists>pre post. join (NL @ NL) blocks = pre @ blocks ! i @ (NL @ NL) @ blocks ! Suc i @ post) \<and>
        (\<exists>pre post. join NL refs = pre @ refs ! i @ NL @ refs ! Suc i @ post)"
    using order by blast
  show ?thesis
    apply (rule exI [where x = blocks])
    apply (rule exI [where x = refs])
    apply (intro conjI ctx lb sent refs lr fr all_labels all_order)
    done
qed

theorem rank_order_preserved_witness:
  "list_all is_passage sample_passages
   \<and> prompt_context stub_lib (JList sample_passages) =
       Inr (''Source 1:'' @ NL @ ''first'' @ NL @ NL @ ''Source 2:'' @ NL @ ''second'')
   \<and> format_references stub_lib (JList sample_passages) =
       Inr (NL @ ''--- Reference 1 ---'' @ NL @ ''Source: s3://a'' @ NL @ ''Page: N/A'' @ NL
            @ ''Content: first...'' @ NL
            @ NL @ ''--- Reference 2 ---'' @ NL @ ''Source: s3://b'' @ NL @ ''Page: N/A'' @ NL
            @ ''Content: second...'')
   \<and> (\<exists>blocks refs.
     prompt_context stub_lib (JList sample_passages) = Inr (join (NL @ NL) blocks)
     \<and> length blocks = length sample_passages \<and>
     (runtime_client (scripted_world (Inr JNull) (Inr JNull)) = None \<longrightarrow>
        (\<exists>rest. snd (generate_response (scripted_world (Inr JNull) (Inr JNull)) stub_lib
              ''anthropic.claude-v2'' sample_query (JList sample_passages)) =
           Call ''boto3.client'' [JStr ''bedrock-runtime'']
           # Call ''invoke_model'' [JStr ''anthropic.claude-v2'',
               request_body ''anthropic.claude-v2'' (full_prompt (join (NL @ NL) blocks) sample_query)]
           # rest)) \<and>
     references stub_lib 1 sample_passages = Inr refs \<and> length refs = length sample_passages \<and>
     (sample_passages \<noteq> [] \<longrightarrow> format_references stub_lib (JList sample_passages) = Inr (join NL refs)) \<and>
     (\<forall>i. i < length sample_passages \<longrightarrow>
        blocks ! i = ''Source '' @ str_nat (i + 1) @ '':'' @ NL @ passage_text (sample_passages ! i) \<and>
        reference stub_lib (i + 1) (sample_passages ! i) = Inr (refs ! i) \<and>
        (\<exists>src page. refs ! i =
           NL @ ''--- Reference '' @ str_nat (i + 1) @ '' ---'' @ NL
           @ ''Source: '' @ src @ NL @ ''Page: '' @ page @ NL
           @ ''Content: '' @ take 200 (passage_text (sample_passages ! i)) @ ''...'')) \<and>
     (\<forall>i. Suc i < length sample_passages \<longrightarrow>
        (\<exists>pre post. join (NL @ NL) blocks = pre @ blocks ! i @ (NL @ NL) @ blocks ! Suc i @ post) \<and>
        (\<exists>pre post. join NL refs = pre @ refs ! i @ NL @ refs ! Suc i @ post)))"
proof (intro conjI)
  show "list_all is_passage sample_passages" by (rule sample_passages_ok)
  show "prompt_context stub_lib (JList sample_passages) =
       Inr (''Source 1:'' @ NL @ ''first'' @ NL @ NL @ ''Source 2:'' @ NL @ ''second'')"
    by (simp add: sample_passages_def prompt_context_def source_block_def sample_passage_def
        py_str_def str_nat.simps)
  show "format_references stub_lib (JList sample_passages) =
       Inr (NL @ ''--- Reference 1 ---'' @ NL @ ''Source: s3://a'' @ NL @ ''Page: N/A'' @ NL
            @ ''Content: first...'' @ NL
            @ NL @ ''--- Reference 2 ---'' @ NL @ ''Source: s3://b'' @ NL @ ''Page: N/A'' @ NL
            @ ''Content: second...'')"
    by (simp add: sample_passages_def format_references_def reference_def sample_passage_def
        py_str_def str_nat.simps)
  show "\<exists>blocks refs.
     prompt_context stub_lib (JList sample_passages) = Inr (join (NL @ NL) blocks)
     \<and> length blocks = length sample_passages \<and>
     (runtime_client (scripted_world (Inr JNull) (Inr JNull)) = None \<longrightarrow>
        (\<exists>rest. snd (generate_response (scripted_world (Inr JNull) (Inr JNull)) stub_lib
              ''anthropic.claude-v2'' sample_query (JList sample_passages)) =
           Call ''boto3.client'' [JStr ''bedrock-runtime'']
           # Call ''invoke_model'' [JStr ''anthropic.claude-v2'',
               request_body ''anthropic.claude-v2'' (full_prompt (join (NL @ NL) blocks) sample_query)]
           # rest)) \<and>
     references stub_lib 1 sample_passages = Inr refs \<and> length refs = length sample_passages \<and>
     (sample_passages \<noteq> [] \<longrightarrow> format_references stub_lib (JList sample_passages) = Inr (join NL refs)) \<and>
     (\<forall>i. i < length sample_passages \<longrightarrow>
        blocks ! i = ''Source '' @ str_nat (i + 1) @ '':'' @ NL @ passage_text (sample_passages ! i) \<and>
        reference stub_lib (i + 1) (sample_passages ! i) = Inr (refs ! i) \<and>
        (\<exists>src page. refs ! i =
           NL @ ''--- Reference '' @ str_nat (i + 1) @ '' ---'' @ NL
           @ ''Source: '' @ src @ NL @ ''Page: '' @ page @ NL
           @ ''Content: '' @ take 200 (passage_text (sample_passages ! i)) @ ''...'')) \<and>
     (\<forall>i. Suc i < length sample_passages \<longrightarrow>
        (\<exists>pre post. join (NL @ NL) blocks = pre @ blocks ! i @ (NL @ NL) @ blocks ! Suc i @ post) \<and>
        (\<exists>pre post. join NL refs = pre @ refs ! i @ NL @ refs ! Suc i @ post))"
    by (rule rank_order_preserved [OF sample_passages_ok])
qed

subsection \<open>C4: a failed retrieval yields no passages\<close>

text \<open>
  Claim C4. When the retrieve operation fails, \<^verbatim>\<open>query_knowledge_base\<close> of
  \<^verbatim>\<open>query_kb_retrieve.py\<close> prints the error (and its details when the exception carries a
  response) and returns the empty list. When the retrieve-and-generate operation fails,
  \<^verbatim>\<open>query_knowledge_base\<close> of \<^verbatim>\<open>query_knowledge_base.py\<close> prints the error and returns the
  response whose \<^verbatim>\<open>retrievalResults\<close> is the empty list, which is what its caller reads.
  Neither raises.
\<close>

theorem retrieval_failure_yields_empty:
  "(retrieve w kb q n = Inl e \<longrightarrow>
      retrieve_query_knowledge_base w lib kb q n =
        (Inr (JList []),
         Call ''retrieve'' [JStr kb, JStr q, JInt n]
         # Print (''Error querying knowledge base: '' @ emsg e)
         # (case eresponse e of
              Some r \<Rightarrow> [Print (''Error details: '' @ py_str lib r)]
            | None \<Rightarrow> [])))
   \<and> (retrieve_and_generate w q kb n = Inl e \<longrightarrow>
      fst (query_knowledge_base w lib kb q n) = Inr (JDict [(''retrievalResults'', JList [])])
      \<and> bindE (fst (query_knowledge_base w lib kb q n))
           (\<lambda>response. py_get response ''retrievalResults'' (JList [])) = Inr (JList [])
      \<and> Print (''Error Message: '' @ emsg e) \<in> set (snd (query_knowledge_base w lib kb q n)))"
proof (intro conjI impI)
  assume "retrieve w kb q n = Inl e"
  then show "retrieve_query_knowledge_base w lib kb q n =
        (Inr (JList []),
         Call ''retrieve'' [JStr kb, JStr q, JInt n]
         # Print (''Error querying knowledge base: '' @ emsg e)
         # (case eresponse e of
              Some r \<Rightarrow> [Print (''Error details: '' @ py_str lib r)]
            | None \<Rightarrow> []))"
    by (cases "eresponse e") (simp_all add: retrieve_query_knowledge_base_def comp_defs)
next
  assume f: "retrieve_and_generate w q kb n = Inl e"
  note q = query_knowledge_base_failure [OF f, of lib]
  show "fst (query_knowledge_base w lib kb q n) = Inr (JDict [(''retrievalResults'', JList [])])"
    by (simp add: q empty_response_def)
  show "bindE (fst (query_knowledge_base w lib kb q n))
           (\<lambda>response. py_get response ''retrievalResults'' (JList [])) = Inr (JList [])"
    by (simp add: q empty_response_def)
  show "Print (''Error Message: '' @ emsg e) \<in> set (snd (query_knowledge_base w lib kb q n))"
    using report_query_error_message [of e lib] by (simp add: q)
qed

theorem retrieval_failure_yields_empty_witness:
  "retrieve (scripted_world (Inl service_error) (Inr JNull)) ''HBPKZNSUMS'' ''What is the payload?'' 3
     = Inl service_error
   \<and> retrieve_and_generate (scripted_world (Inl service_error) (Inr JNull)) ''What is the payload?'' ''HBPKZNSUMS'' 3
     = Inl service_error
   \<and> fst (retrieve_query_knowledge_base (scripted_world (Inl service_error) (Inr JNull)) stub_lib
        ''HBPKZNSUMS'' ''What is the payload?'' 3) = Inr (JList [])
   \<and> fst (query_knowledge_base (scripted_world (Inl service_error) (Inr JNull)) stub_lib
        ''HBPKZNSUMS'' ''What is the payload?'' 3) = Inr (JDict [(''retrievalResults'', JList [])])"
  using retrieval_failure_yields_empty [of "scripted_world (Inl service_error) (Inr JNull)"
    "''HBPKZNSUMS''" "''What is the payload?''" 3 service_error stub_lib]
  by (simp add: scripted_world_def)

subsection \<open>C5: a failed generation is raised again\<close>

text \<open>
  Claim C5. When the model invocation fails, \<^verbatim>\<open>generate_response\<close> prints the error and
  raises the same exception: it returns no value.
\<close>

theorem generation_failure_propagates:
  assumes "prompt_context lib rs = Inr ctx" and "runtime_client w = None"
    and "invoke_model w mid (request_body mid (full_prompt ctx prompt)) = Inl e"
  shows "generate_response w lib mid prompt rs =
     (Inl e,
      [Call ''boto3.client'' [JStr ''bedrock-runtime''],
       Call ''invoke_model'' [JStr mid, request_body mid (full_prompt ctx prompt)],
       Print (''Error generating response: '' @ emsg e)])"
  using assms by (simp add: generate_response_run)

theorem generation_failure_propagates_witness:
  "invoke_model (scripted_world (Inr JNull) (Inl service_error)) ''anthropic.claude-v2''
      (request_body ''anthropic.claude-v2'' (full_prompt (''Source 1:'' @ NL @ ''first'') ''What is the payload?''))
     = Inl service_error
   \<and> generate_response (scripted_world (Inr JNull) (Inl service_error)) stub_lib
        ''anthropic.claude-v2'' ''What is the payload?'' (JList [sample_passage ''first'' ''s3://a'']) =
     (Inl service_error,
      [Call ''boto3.client'' [JStr ''bedrock-runtime''],
       Call ''invoke_model'' [JStr ''anthropic.claude-v2'',
         request_body ''anthropic.claude-v2'' (full_prompt (''Source 1:'' @ NL @ ''first'') ''What is the payload?'')],
       Print (''Error generating response: '' @ emsg service_error)])"
proof -
  have c: "runtime_client (scripted_world (Inr JNull) (Inl service_error)) = None"
    by (simp add: scripted_world_def)
  have i: "invoke_model (scripted_world (Inr JNull) (Inl service_error)) ''anthropic.claude-v2''
      (request_body ''anthropic.claude-v2'' (full_prompt (''Source 1:'' @ NL @ ''first'') ''What is the payload?''))
     = Inl service_error"
    by (simp add: scripted_world_def)
  from generation_failure_propagates [OF sample_context c i] i show ?thesis by simp
qed

subsection \<open>C6: the request body by model family\<close>

text \<open>
  Claim C6. The body that \<^verbatim>\<open>generate_response\<close> sends to the model has the fields
  \<^verbatim>\<open>prompt\<close> (wrapped between \<^verbatim>\<open>Human:\<close> and \<^verbatim>\<open>Assistant:\<close>) and \<^verbatim>\<open>max_tokens_to_sample\<close>
  when the lower-cased identifier contains \<^verbatim>\<open>claude\<close>, and the fields \<^verbatim>\<open>prompt\<close> and
  \<^verbatim>\<open>max_tokens\<close> for every other identifier.
\<close>

theorem request_body_by_family:
  assumes "prompt_context lib rs = Inr ctx" and "runtime_client w = None"
  shows "\<exists>rest. snd (generate_response w lib mid prompt rs) =
     Call ''boto3.client'' [JStr ''bedrock-runtime'']
     # Call ''invoke_model''
         [JStr mid,
          (if contains ''claude'' (lower mid)
           then JDict [(''prompt'', JStr (NL @ NL @ ''Human: '' @ full_prompt ctx prompt @ NL @ NL @ ''Assistant:'')),
                       (''max_tokens_to_sample'', JInt 1000),
                       (''temperature'', JFloat (1 / 2)),
                       (''top_p'', JFloat (9 / 10))]
           else JDict [(''prompt'', JStr (full_prompt ctx prompt)),
                       (''max_tokens'', JInt 1000),
                       (''temperature'', JFloat (1 / 2)),
                       (''top_p'', JFloat (9 / 10))])]
     # rest"
  using generate_response_run [OF assms, of mid prompt]
  by (auto simp: request_body_def is_claude_def split: sum.splits)

theorem request_body_by_family_witness:
  "(\<exists>rest. snd (generate_response (scripted_world (Inr JNull) (Inr (JDict []))) stub_lib
        ''anthropic.claude-v2'' ''What is the payload?'' (JList [sample_passage ''first'' ''s3://a''])) =
      Call ''boto3.client'' [JStr ''bedrock-runtime'']
      # Call ''invoke_model''
          [JStr ''anthropic.claude-v2'',
           JDict [(''prompt'', JStr (NL @ NL @ ''Human: ''
                     @ full_prompt (''Source 1:'' @ NL @ ''first'') ''What is the payload?''
                     @ NL @ NL @ ''Assistant:'')),
                  (''max_tokens_to_sample'', JInt 1000),
                  (''temperature'', JFloat (1 / 2)),
                  (''top_p'', JFloat (9 / 10))]]
      # rest)
   \<and> (\<exists>rest. snd (generate_response (scripted_world (Inr JNull) (Inr (JDict []))) stub_lib
        ''amazon.titan-text-express-v1'' ''What is the payload?'' (JList [sample_passage ''first'' ''s3://a''])) =
      Call ''boto3.client'' [JStr ''bedrock-runtime'']
      # Call ''invoke_model''
          [JStr ''amazon.titan-text-express-v1'',
           JDict [(''prompt'', JStr (full_prompt (''Source 1:'' @ NL @ ''first'') ''What is the payload?'')),
                  (''max_tokens'', JInt 1000),
                  (''temperature'', JFloat (1 / 2)),
                  (''top_p'', JFloat (9 / 10))]]
      # rest)"
proof -
  have c: "runtime_client (scripted_world (Inr JNull) (Inr (JDict []))) = None"
    by (simp add: scripted_world_def)
  show ?thesis
    using request_body_by_family [OF sample_context c, of "''anthropic.claude-v2''" "''What is the payload?''"]
      request_body_by_family [OF sample_context c, of "''amazon.titan-text-express-v1''" "''What is the payload?''"]
    by (simp only: lower_claude lower_titan if_True if_False simp_thms)
qed

subsection \<open>C7: where the generated text is read\<close>

text \<open>
  Where the text is read, for a response body that is a JSON object. When the lower-cased
  identifier contains \<^verbatim>\<open>claude\<close> the result is the value of \<^verbatim>\<open>completion\<close>, or
  \<^verbatim>\<open>No response generated\<close> when that key is absent. When it contains \<^verbatim>\<open>titan\<close> (and the
  \<^verbatim>\<open>claude\<close> branch was not taken), the result is \<^verbatim>\<open>No response generated\<close> when \<^verbatim>\<open>results\<close>
  is absent, and the \<^verbatim>\<open>outputText\<close> of the first element when \<^verbatim>\<open>results\<close> is a list that
  starts with an object, or \<^verbatim>\<open>No response generated\<close> when that key is absent.
\<close>

lemma response_text_by_family:
  assumes "prompt_context lib rs = Inr ctx" and "runtime_client w = None"
    and "invoke_model w mid (request_body mid (full_prompt ctx prompt)) = Inr (JDict kvs)"
  shows "(contains ''claude'' (lower mid) \<longrightarrow>
            fst (generate_response w lib mid prompt rs) =
              Inr (case map_of kvs ''completion'' of Some v \<Rightarrow> v | None \<Rightarrow> JStr ''No response generated''))
       \<and> (\<not> contains ''claude'' (lower mid) \<and> contains ''titan'' (lower mid)
            \<and> map_of kvs ''results'' = None \<longrightarrow>
            fst (generate_response w lib mid prompt rs) = Inr (JStr ''No response generated''))
       \<and> (\<not> contains ''claude'' (lower mid) \<and> contains ''titan'' (lower mid)
            \<and> map_of kvs ''results'' = Some (JList (JDict item # others)) \<longrightarrow>
            fst (generate_response w lib mid prompt rs) =
              Inr (case map_of item ''outputText'' of Some v \<Rightarrow> v | None \<Rightarrow> JStr ''No response generated''))"
  using assms(3)
  by (auto simp: generate_response_run [OF assms(1,2)] extract_text_def is_claude_def is_titan_def
      no_response_def split: option.splits)

lemma response_text_by_family_examples:
  "fst (generate_response
          (scripted_world (Inr JNull) (Inr (JDict [(''completion'', JStr ''About 40 tonnes.'')])))
          stub_lib ''anthropic.claude-v2'' sample_query (JList [sample_passage ''first'' ''s3://a'']))
     = Inr (JStr ''About 40 tonnes.'')
   \<and> fst (generate_response
          (scripted_world (Inr JNull) (Inr (JDict [(''inputTextTokenCount'', JInt 12)])))
          stub_lib ''amazon.titan-text-express-v1'' sample_query (JList [sample_passage ''first'' ''s3://a'']))
     = Inr (JStr ''No response generated'')
   \<and> fst (generate_response
          (scripted_world (Inr JNull)
             (Inr (JDict [(''results'', JList [JDict [(''outputText'', JStr ''About 40 tonnes.'')]])])))
          stub_lib ''amazon.titan-text-express-v1'' sample_query (JList [sample_passage ''first'' ''s3://a'']))
     = Inr (JStr ''About 40 tonnes.'')"
  using
    response_text_by_family [OF sample_context, of
      "scripted_world (Inr JNull) (Inr (JDict [(''completion'', JStr ''About 40 tonnes.'')]))"
      "''anthropic.claude-v2''" sample_query "[(''completion'', JStr ''About 40 tonnes.'')]"]
    response_text_by_family [OF sample_context, of
      "scripted_world (Inr JNull) (Inr (JDict [(''inputTextTokenCount'', JInt 12)]))"
      "''amazon.titan-text-express-v1''" sample_query "[(''inputTextTokenCount'', JInt 12)]"]
    response_text_by_family [OF sample_context, of
      "scripted_world (Inr JNull)
             (Inr (JDict [(''results'', JList [JDict [(''outputText'', JStr ''About 40 tonnes.'')]])]))"
      "''amazon.titan-text-express-v1''" sample_query
      "[(''results'', JList [JDict [(''outputText'', JStr ''About 40 tonnes.'')]])]"
      "[(''outputText'', JStr ''About 40 tonnes.'')]" "[]"]
  by (simp add: lower_claude lower_titan)

text \<open>
  The default \<^verbatim>\<open>[{}]\<close> of \<^verbatim>\<open>response_body.get('results', [{}])\<close> covers an absent
  \<^verbatim>\<open>results\<close> only. When \<^verbatim>\<open>results\<close> is present and empty, \<^verbatim>\<open>[0]\<close> raises, the handler prints
  the error and raises it again.
\<close>

lemma titan_empty_results:
  assumes "prompt_context lib rs = Inr ctx" and "runtime_client w = None"
    and "invoke_model w mid (request_body mid (full_prompt ctx prompt)) = Inr (JDict kvs)"
    and "\<not> contains ''claude'' (lower mid)" and "contains ''titan'' (lower mid)"
    and "map_of kvs ''results'' = Some (JList [])"
  shows "generate_response w lib mid prompt rs =
     (Inl (IndexError ''list index out of range''),
      [Call ''boto3.client'' [JStr ''bedrock-runtime''],
       Call ''invoke_model'' [JStr mid, request_body mid (full_prompt ctx prompt)],
       Print ''Error generating response: list index out of range''])"
  using assms(3-6)
  by (simp add: generate_response_run [OF assms(1,2)] extract_text_def is_claude_def is_titan_def
      IndexError_def)

text \<open>
  Claim C7 says that \<^verbatim>\<open>generate_response\<close> returns the sentinel \<^verbatim>\<open>No response generated\<close>,
  rather than failing, whenever the generated text is absent from the response body. For
  the identifier \<^verbatim>\<open>amazon.titan-text-express-v1\<close> and the body \<^verbatim>\<open>{"results": []}\<close>, in which
  \<^verbatim>\<open>results[0].outputText\<close> is absent, it raises \<^verbatim>\<open>IndexError\<close> after printing it.
\<close>

theorem titan_empty_results_raises:
  "generate_response (scripted_world (Inr JNull) (Inr (JDict [(''results'', JList [])]))) stub_lib
     ''amazon.titan-text-express-v1'' sample_query (JList [sample_passage ''first'' ''s3://a'']) =
     (Inl (IndexError ''list index out of range''),
      [Call ''boto3.client'' [JStr ''bedrock-runtime''],
       Call ''invoke_model''
         [JStr ''amazon.titan-text-express-v1'',
          request_body ''amazon.titan-text-express-v1''
            (full_prompt (''Source 1:'' @ NL @ ''first'') sample_query)],
       Print ''Error generating response: list index out of range''])"
  by (simp add: generate_response_run [OF sample_context] extract_text_def is_claude_def
      is_titan_def lower_titan IndexError_def)

subsection \<open>C8: no passages, no generation\<close>

text \<open>
  Claim C8. When the retrieval step yields no passage (more generally, a value that
  Python reads as false), both branches of \<^verbatim>\<open>main\<close> print
  \<^verbatim>\<open>No results found for your query.\<close> right after the trace of the query and stop there:
  nothing of \<^verbatim>\<open>generate_response\<close> or \<^verbatim>\<open>format_references\<close> appears, and the trace holds
  no call of the generation service.
\<close>

theorem no_results_skips_generation:
  assumes "fst (query_knowledge_base w lib (arg_knowledge_base_id a) q (arg_max_results a)) = Inr response"
    and "py_get response ''retrievalResults'' (JList []) = Inr rr" and "\<not> py_truthy rr"
  shows "main_query w lib a q =
           (Inr (),
            Print (''Querying knowledge base: '' @ q)
            # snd (query_knowledge_base w lib (arg_knowledge_base_id a) q (arg_max_results a))
            @ [Print ''No results found for your query.''])
       \<and> no_generation (snd (main_query w lib a q))
       \<and> (strip line = q \<and> q \<noteq> [] \<and> lower q \<noteq> ''exit'' \<and> lower q \<noteq> ''quit'' \<longrightarrow>
            interactive_turn w lib a line =
              (True,
               Prompt (NL @ ''Enter your question: '')
               # Print (NL @ ''Searching knowledge base...'')
               # snd (query_knowledge_base w lib (arg_knowledge_base_id a) q (arg_max_results a))
               @ [Print ''No results found for your query.''])
            \<and> no_generation (snd (interactive_turn w lib a line)))"
proof (intro conjI impI)
  show m: "main_query w lib a q =
           (Inr (),
            Print (''Querying knowledge base: '' @ q)
            # snd (query_knowledge_base w lib (arg_knowledge_base_id a) q (arg_max_results a))
            @ [Print ''No results found for your query.''])"
    using assms by (rule main_query_no_results)
  show "no_generation (snd (main_query w lib a q))"
    by (simp add: m no_generation_query)
next
  assume h: "strip line = q \<and> q \<noteq> [] \<and> lower q \<noteq> ''exit'' \<and> lower q \<noteq> ''quit''"
  with assms show i: "interactive_turn w lib a line =
              (True,
               Prompt (NL @ ''Enter your question: '')
               # Print (NL @ ''Searching knowledge base...'')
               # snd (query_knowledge_base w lib (arg_knowledge_base_id a) q (arg_max_results a))
               @ [Print ''No results found for your query.''])"
    using interactive_turn_no_results [of w lib a line response rr] by simp
  show "no_generation (snd (interactive_turn w lib a line))"
    by (simp add: i no_generation_query)
qed

theorem no_results_skips_generation_witness:
  "fst (query_knowledge_base (scripted_world (Inr empty_response) (Inr JNull)) stub_lib
         (arg_knowledge_base_id default_args) ''What is the payload?'' (arg_max_results default_args))
     = Inr empty_response
   \<and> fst (main_query (scripted_world (Inr empty_response) (Inr JNull)) stub_lib default_args
           ''What is the payload?'') = Inr ()
   \<and> last (snd (main_query (scripted_world (Inr empty_response) (Inr JNull)) stub_lib default_args
           ''What is the payload?'')) = Print ''No results found for your query.''
   \<and> no_generation (snd (main_query (scripted_world (Inr empty_response) (Inr JNull)) stub_lib
           default_args ''What is the payload?''))
   \<and> fst (interactive_turn (scripted_world (Inr empty_response) (Inr JNull)) stub_lib default_args
           ''  What is the payload?  '') = True
   \<and> last (snd (interactive_turn (scripted_world (Inr empty_response) (Inr JNull)) stub_lib default_args
           ''  What is the payload?  '')) = Print ''No results found for your query.''
   \<and> no_generation (snd (interactive_turn (scripted_world (Inr empty_response) (Inr JNull)) stub_lib
           default_args ''  What is the payload?  ''))"
proof -
  have q: "fst (query_knowledge_base (scripted_world (Inr empty_response) (Inr JNull)) stub_lib
         (arg_knowledge_base_id default_args) ''What is the payload?'' (arg_max_results default_args))
     = Inr empty_response"
    by (simp add: query_knowledge_base_success)
  have g: "py_get empty_response ''retrievalResults'' (JList []) = Inr (JList [])"
    by (simp add: empty_response_def)
  have t: "\<not> py_truthy (JList [])" by simp
  from no_results_skips_generation [OF q g t, of "''  What is the payload?  ''"] q
    sample_strip sample_not_exit
  show ?thesis by (simp add: no_generation_query)
qed

subsection \<open>C9: what a failure looks like from outside\<close>

text \<open>
  Claim C9, as the code has it. A failure of the model invocation ends the pipeline with
  the line \<^verbatim>\<open>Error: ...\<close>, which differs from the line of the no-results outcome. A failure
  of the retrieval call is printed (\<^verbatim>\<open>Error Message: ...\<close>), but the pipeline then ends in
  the no-results outcome, with the line \<^verbatim>\<open>No results found for your query.\<close>
\<close>

theorem failure_outcomes:
  "(retrieve_and_generate w q (arg_knowledge_base_id a) (arg_max_results a) = Inl e \<longrightarrow>
      fst (main_query w lib a q) = Inr ()
      \<and> last (snd (main_query w lib a q)) = Print ''No results found for your query.''
      \<and> Print (''Error Message: '' @ emsg e) \<in> set (snd (main_query w lib a q)))
   \<and> (fst (query_knowledge_base w lib (arg_knowledge_base_id a) q (arg_max_results a)) = Inr response
      \<and> py_get response ''retrievalResults'' (JList []) = Inr rr \<and> py_truthy rr
      \<and> prompt_context lib rr = Inr ctx \<and> runtime_client w = None
      \<and> invoke_model w (arg_model_id a) (request_body (arg_model_id a) (full_prompt ctx q)) = Inl e \<longrightarrow>
      fst (main_query w lib a q) = Inr ()
      \<and> last (snd (main_query w lib a q)) = Print (''Error: '' @ emsg e)
      \<and> Print (''Error: '' @ emsg e) \<noteq> Print ''No results found for your query.'')"
proof (intro conjI impI)
  assume f: "retrieve_and_generate w q (arg_knowledge_base_id a) (arg_max_results a) = Inl e"
  note qf = query_knowledge_base_failure [OF f, of lib]
  have m: "main_query w lib a q =
     (Inr (),
      Print (''Querying knowledge base: '' @ q)
      # snd (query_knowledge_base w lib (arg_knowledge_base_id a) q (arg_max_results a))
      @ [Print ''No results found for your query.''])"
    by (rule main_query_no_results [where response = empty_response and rr = "JList []"])
       (simp_all add: qf empty_response_def)
  show "fst (main_query w lib a q) = Inr ()" by (simp add: m)
  show "last (snd (main_query w lib a q)) = Print ''No results found for your query.''"
    by (simp add: m)
  show "Print (''Error Message: '' @ emsg e) \<in> set (snd (main_query w lib a q))"
    using report_query_error_message [of e lib] by (simp add: m qf)
next
  assume h: "fst (query_knowledge_base w lib (arg_knowledge_base_id a) q (arg_max_results a)) = Inr response
      \<and> py_get response ''retrievalResults'' (JList []) = Inr rr \<and> py_truthy rr
      \<and> prompt_context lib rr = Inr ctx \<and> runtime_client w = None
      \<and> invoke_model w (arg_model_id a) (request_body (arg_model_id a) (full_prompt ctx q)) = Inl e"
  then have m: "main_query w lib a q =
     (Inr (),
      Print (''Querying knowledge base: '' @ q)
      # snd (query_knowledge_base w lib (arg_knowledge_base_id a) q (arg_max_results a))
      @ [Call ''boto3.client'' [JStr ''bedrock-runtime''],
         Call ''invoke_model'' [JStr (arg_model_id a), request_body (arg_model_id a) (full_prompt ctx q)],
         Print (''Error generating response: '' @ emsg e),
         Print (''Error: '' @ emsg e)])"
    using main_query_generation_failure [of w lib a q response rr ctx e] by blast
  show "fst (main_query w lib a q) = Inr ()" by (simp add: m)
  show "last (snd (main_query w lib a q)) = Print (''Error: '' @ emsg e)" by (simp add: m)
  show "Print (''Error: '' @ emsg e) \<noteq> Print ''No results found for your query.''" by simp
qed

theorem failure_outcomes_witness:
  "fst (main_query (scripted_world (Inl service_error) (Inr JNull)) stub_lib default_args sample_query)
     = Inr ()
   \<and> last (snd (main_query (scripted_world (Inl service_error) (Inr JNull)) stub_lib default_args
        sample_query)) = Print ''No results found for your query.''
   \<and> Print (''Error Message: '' @ emsg service_error)
       \<in> set (snd (main_query (scripted_world (Inl service_error) (Inr JNull)) stub_lib default_args
            sample_query))
   \<and> fst (main_query
        (scripted_world (Inr (JDict [(''retrievalResults'', JList [sample_passage ''first'' ''s3://a''])]))
           (Inl service_error)) stub_lib default_args sample_query) = Inr ()
   \<and> last (snd (main_query
        (scripted_world (Inr (JDict [(''retrievalResults'', JList [sample_passage ''first'' ''s3://a''])]))
           (Inl service_error)) stub_lib default_args sample_query))
       = Print (''Error: '' @ emsg service_error)"
  using
    failure_outcomes [of "scripted_world (Inl service_error) (Inr JNull)" sample_query default_args
      service_error stub_lib]
    failure_outcomes [of
      "scripted_world (Inr (JDict [(''retrievalResults'', JList [sample_passage ''first'' ''s3://a''])]))
           (Inl service_error)" sample_query default_args service_error stub_lib
      "JDict [(''retrievalResults'', JList [sample_passage ''first'' ''s3://a''])]"
      "JList [sample_passage ''first'' ''s3://a'']" "''Source 1:'' @ NL @ ''first''"]
    sample_context
  by (simp add: query_knowledge_base_success)

text \<open>
  A failed retrieval and a retrieval that found nothing give the same value of
  \<^verbatim>\<open>query_knowledge_base\<close>, the same result of the pipeline and the same final line.
\<close>

theorem failure_outcomes_counterexample:
  "fst (query_knowledge_base (scripted_world (Inl service_error) (Inr JNull)) stub_lib
         ''HBPKZNSUMS'' sample_query 3)
     = fst (query_knowledge_base (scripted_world (Inr empty_response) (Inr JNull)) stub_lib
         ''HBPKZNSUMS'' sample_query 3)
   \<and> fst (main_query (scripted_world (Inl service_error) (Inr JNull)) stub_lib default_args sample_query)
     = fst (main_query (scripted_world (Inr empty_response) (Inr JNull)) stub_lib default_args sample_query)
   \<and> last (snd (main_query (scripted_world (Inl service_error) (Inr JNull)) stub_lib default_args
        sample_query)) = Print ''No results found for your query.''
   \<and> last (snd (main_query (scripted_world (Inr empty_response) (Inr JNull)) stub_lib default_args
        sample_query)) = Print ''No results found for your query.''"
proof -
  have g: "py_get empty_response ''retrievalResults'' (JList []) = Inr (JList [])"
    by (simp add: empty_response_def)
  have t: "\<not> py_truthy (JList [])" by simp
  have f: "fst (query_knowledge_base (scripted_world (Inl service_error) (Inr JNull)) stub_lib
         kb sample_query n) = Inr empty_response" for kb n
    by (simp add: query_knowledge_base_failure)
  have s: "fst (query_knowledge_base (scripted_world (Inr empty_response) (Inr JNull)) stub_lib
         kb sample_query n) = Inr empty_response" for kb n
    by (simp add: query_knowledge_base_success)
  show ?thesis
    by (simp add: f s main_query_no_results [OF f g t] main_query_no_results [OF s g t])
qed

subsection \<open>C10: the other model families\<close>

text \<open>
  Claim C10. When the lower-cased identifier contains neither \<^verbatim>\<open>claude\<close> nor \<^verbatim>\<open>titan\<close>,
  \<^verbatim>\<open>generate_response\<close> returns \<^verbatim>\<open>str\<close> of the whole parsed body, whatever fields it has.
\<close>

theorem other_family_returns_whole_body:
  assumes "prompt_context lib rs = Inr ctx" and "runtime_client w = None"
    and "invoke_model w mid (request_body mid (full_prompt ctx prompt)) = Inr body"
    and "\<not> contains ''claude'' (lower mid)" and "\<not> contains ''titan'' (lower mid)"
  shows "generate_response w lib mid prompt rs =
     (Inr (JStr (py_str lib body)),
      [Call ''boto3.client'' [JStr ''bedrock-runtime''],
       Call ''invoke_model'' [JStr mid, request_body mid (full_prompt ctx prompt)]])"
  using assms(3-5)
  by (simp add: generate_response_run [OF assms(1,2)] extract_text_def is_claude_def is_titan_def)

theorem other_family_returns_whole_body_witness:
  "\<not> contains ''claude'' (lower ''meta.llama3-8b-instruct-v1:0'')
   \<and> \<not> contains ''titan'' (lower ''meta.llama3-8b-instruct-v1:0'')
   \<and> fst (generate_response
          (scripted_world (Inr JNull) (Inr (JDict [(''completion'', JStr ''About 40 tonnes.'')])))
          stub_lib ''meta.llama3-8b-instruct-v1:0'' sample_query (JList [sample_passage ''first'' ''s3://a'']))
     = Inr (JStr (py_str stub_lib (JDict [(''completion'', JStr ''About 40 tonnes.'')])))"
proof -
  have n: "\<not> contains ''claude'' (lower ''meta.llama3-8b-instruct-v1:0'')"
    "\<not> contains ''titan'' (lower ''meta.llama3-8b-instruct-v1:0'')"
    by (simp_all add: lower_def lower_char_def)
  from other_family_returns_whole_body [OF sample_context _ _ n, of
      "scripted_world (Inr JNull) (Inr (JDict [(''completion'', JStr ''About 40 tonnes.'')]))"
      sample_query "JDict [(''completion'', JStr ''About 40 tonnes.'')]"] n
  show ?thesis by simp
qed

end
